theory Spec2Isabelle
  imports Complex_Main
begin

section \<open>Values and strings of the host language\<close>

text \<open>
  The merge request arrives as JSON, so a trim field of a clip is absent
  (\<open>undefined\<close>), \<open>null\<close>, a string or a finite number. Numbers are modelled as
  exact reals: the rounding of doubles, \<open>NaN\<close> as a stored value and the non-finite
  doubles are outside the model (a \<open>NaN\<close> result of \<open>parseFloat\<close> is \<open>None\<close>).
  Strings are lists of code units below 256.
\<close>

datatype jsval = Undefined | Null | Str string | Num real

definition is_ws :: "char \<Rightarrow> bool" where
  "is_ws c = (c \<in> set [CHR 0x09, CHR 0x0A, CHR 0x0B, CHR 0x0C, CHR 0x0D, CHR 0x20, CHR 0xA0])"

definition is_digit :: "char \<Rightarrow> bool" where
  "is_digit c = (c \<in> set ''0123456789'')"

definition digit_val :: "char \<Rightarrow> nat" where
  "digit_val c = of_char c - 48"

definition digits_val :: "string \<Rightarrow> nat" where
  "digits_val ds = foldl (\<lambda>a c. 10 * a + digit_val c) 0 ds"

text \<open>\<open>String.prototype.trim\<close>: white space is removed at both ends.\<close>

definition jsTrim :: "string \<Rightarrow> string" where
  "jsTrim s = rev (dropWhile is_ws (rev (dropWhile is_ws s)))"

text \<open>
  \<open>parseFloat\<close> on a string: leading white space is skipped, then the longest prefix
  that is a decimal literal (sign, digits, fraction, exponent) is read; anything after
  it is ignored, and no such prefix gives \<open>NaN\<close>. The literal \<open>Infinity\<close> is not
  modelled.
\<close>

definition split_sign :: "string \<Rightarrow> real \<times> string" where
  "split_sign s =
     (case s of
        c # r \<Rightarrow> if c = CHR ''-'' then (-1, r) else if c = CHR ''+'' then (1, r) else (1, s)
      | [] \<Rightarrow> (1, s))"

definition exponent_part :: "string \<Rightarrow> real" where
  "exponent_part s =
     (case s of
        c # r \<Rightarrow>
          if c = CHR ''e'' \<or> c = CHR ''E'' then
            (let (sg, r') = split_sign r; ds = takeWhile is_digit r'
             in if ds = [] then 1
                else if sg < 0 then 1 / 10 ^ digits_val ds else 10 ^ digits_val ds)
          else 1
      | [] \<Rightarrow> 1)"

definition parseFloatStr :: "string \<Rightarrow> real option" where
  "parseFloatStr s =
     (let (sg, t) = split_sign (dropWhile is_ws s);
          ip = takeWhile is_digit t;
          r1 = dropWhile is_digit t;
          has_dot = (r1 \<noteq> [] \<and> hd r1 = CHR ''.'');
          fp = (if has_dot then takeWhile is_digit (tl r1) else []);
          r2 = (if has_dot then dropWhile is_digit (tl r1) else r1)
      in if ip = [] \<and> fp = [] then None
         else Some (sg * (real (digits_val ip) + real (digits_val fp) / 10 ^ length fp)
                       * exponent_part r2))"

fun parseFloat :: "jsval \<Rightarrow> real option" where
  "parseFloat Undefined = None"
| "parseFloat Null = None"
| "parseFloat (Str s) = parseFloatStr s"
| "parseFloat (Num r) = Some r"

text \<open>\<open>x || d\<close> on numbers: \<open>NaN\<close>, \<open>null\<close> and zero are falsy.\<close>

definition or_num :: "real option \<Rightarrow> real \<Rightarrow> real" where
  "or_num x d = (case x of None \<Rightarrow> d | Some r \<Rightarrow> if r = 0 then d else r)"

section \<open>Watermark text\<close>

text \<open>\<open>s.replace(/c/g, r)\<close> for a single character \<open>c\<close>.\<close>

definition replace_all :: "char \<Rightarrow> string \<Rightarrow> string \<Rightarrow> string" where
  "replace_all c r s = concat (map (\<lambda>x. if x = c then r else [x]) s)"

abbreviation quote :: char where "quote \<equiv> CHR 0x27"
abbreviation backslash :: char where "backslash \<equiv> CHR 0x5C"
abbreviation colon :: char where "colon \<equiv> CHR 0x3A"

text \<open>\<open>watermark.replace(/'/g, "\\'").replace(/:/g, '\\:')\<close>\<close>

definition safeText :: "string \<Rightarrow> string" where
  "safeText watermark =
     replace_all colon [backslash, colon] (replace_all quote [backslash, quote] watermark)"

text \<open>The guard \<open>watermark && watermark.trim()\<close>; an absent watermark is \<open>None\<close>.\<close>

definition has_watermark :: "string option \<Rightarrow> bool" where
  "has_watermark watermark =
     (case watermark of None \<Rightarrow> False | Some w \<Rightarrow> w \<noteq> [] \<and> jsTrim w \<noteq> [])"

section \<open>Filter graphs\<close>

text \<open>
  A filter of the graph is kept as data instead of text: the labels it reads, its
  chain of operations and the labels it writes. \<open>SrcV i\<close> and \<open>SrcA i\<close> are the raw
  streams \<open>[i:v]\<close> and \<open>[i:a]\<close> of input \<open>i\<close>; every other label is written by a filter.
\<close>

datatype label =
    SrcV nat | SrcA nat
  | V nat | A nat
  | Vfin nat | Afin nat | Vfout nat | Afout nat
  | Xv nat | Xa nat
  | Outv | Outa | Watermarked | Outv2

text \<open>
  The text of a label, as the template strings write it: a prefix and the clip index in
  decimal digits (\<open>`[v${i}]`\<close> without the brackets), or \<open>i:v\<close> and \<open>i:a\<close> for the raw
  streams.
\<close>

function digits_of :: "nat \<Rightarrow> string" where
  "digits_of n =
     (if n < 10 then [''0123456789'' ! n]
      else digits_of (n div 10) @ [''0123456789'' ! (n mod 10)])"
  by pat_completeness auto
termination
  by (relation "measure id") auto

declare digits_of.simps [simp del]

fun label_text :: "label \<Rightarrow> string" where
  "label_text (SrcV i) = digits_of i @ '':v''"
| "label_text (SrcA i) = digits_of i @ '':a''"
| "label_text (V i) = ''v'' @ digits_of i"
| "label_text (A i) = ''a'' @ digits_of i"
| "label_text (Vfin i) = ''vfin'' @ digits_of i"
| "label_text (Afin i) = ''afin'' @ digits_of i"
| "label_text (Vfout i) = ''vfout'' @ digits_of i"
| "label_text (Afout i) = ''afout'' @ digits_of i"
| "label_text (Xv i) = ''xv'' @ digits_of i"
| "label_text (Xa i) = ''xa'' @ digits_of i"
| "label_text Outv = ''outv''"
| "label_text Outa = ''outa''"
| "label_text Watermarked = ''watermarked''"
| "label_text Outv2 = ''outv2''"

datatype fadetype = In | Out

text \<open>
  The operations of a chain, with the parameters that vary:
  \<^item> \<open>Trim s e\<close> is \<open>trim=start=s:end=e\<close> and \<open>Setpts\<close> is \<open>setpts=PTS-STARTPTS\<close>;
    \<open>Atrim\<close> and \<open>Asetpts\<close> are their audio forms;
  \<^item> \<open>Scale w h\<close> is \<open>scale=w:h:force_original_aspect_ratio=decrease\<close>;
  \<^item> \<open>Pad w h c\<close> is \<open>pad=w:h:(ow-iw)/2:(oh-ih)/2\<close>, with \<open>:color=c\<close> when given;
  \<^item> \<open>Setsar 1\<close>, \<open>Fps 30\<close>, \<open>Format ''yuv420p''\<close>, \<open>Aresample 44100\<close> are
    \<open>setsar=1\<close>, \<open>fps=30\<close>, \<open>format=yuv420p\<close>, \<open>aresample=44100\<close>;
  \<^item> \<open>Aformat f l\<close> is \<open>aformat=sample_fmts=f:channel_layouts=l\<close>;
  \<^item> \<open>Aevalsrc d\<close> is \<open>aevalsrc=0:d=d\<close> and \<open>AevalsrcFmt l r d\<close> is
    \<open>aevalsrc=0:channel_layout=l:sample_rate=r:duration=d\<close>;
  \<^item> \<open>Fade t st d\<close> is \<open>fade=t=..:st=st:d=d\<close>, \<open>Afade\<close> its audio form;
  \<^item> \<open>Concat n v a\<close> is \<open>concat=n=n:v=v:a=a\<close>;
  \<^item> \<open>Xfade d off\<close> is \<open>xfade=transition=fade:duration=d:offset=off\<close>, \<open>XfadeAuto d\<close>
    the same with \<open>offset=auto\<close>, and \<open>Acrossfade d\<close> is \<open>acrossfade=d=d\<close>;
  \<^item> \<open>Drawtext t\<close> is \<open>drawtext=text='t'\<close> followed by the fixed font size, colour,
    position and shadow.
\<close>

datatype 'd step =
    Trim real real
  | Setpts
  | Scale 'd 'd
  | Pad 'd 'd "string option"
  | Setsar nat
  | Fps nat
  | Format string
  | Atrim real real
  | Asetpts
  | Aresample nat
  | Aformat string string
  | Aevalsrc real
  | AevalsrcFmt string nat real
  | Fade fadetype real real
  | Afade fadetype real real
  | Concat nat nat nat
  | Xfade real real
  | XfadeAuto real
  | Acrossfade real
  | Drawtext string

record 'd node =
  ins :: "label list"
  chain :: "'d step list"
  outs :: "label list"

record 'd graph =
  filterGraph :: "'d node list"
  outputs :: "label list"

definition finalVideoLabel :: "'d graph \<Rightarrow> label" where
  "finalVideoLabel g = outputs g ! 0"

definition finalAudioLabel :: "'d graph \<Rightarrow> label" where
  "finalAudioLabel g = outputs g ! 1"

text \<open>The text overlay appended for a watermark, reading \<open>src\<close> and writing \<open>dst\<close>.\<close>

definition drawtext :: "label \<Rightarrow> string \<Rightarrow> label \<Rightarrow> 'd node" where
  "drawtext src watermark dst =
     \<lparr>ins = [src], chain = [Drawtext (safeText watermark)], outs = [dst]\<rparr>"

section \<open>The clip-list compiler (\<open>buildFilterGraph\<close>)\<close>

record video =
  trimStart :: jsval
  trimEnd :: jsval

record probe =
  duration :: real
  hasAudio :: bool

text \<open>
  \<open>mergeVideos\<close> computes one effective duration per clip and their sum before it
  calls \<open>buildFilterGraph\<close>. The three arrays have the length of \<open>videos\<close> there, so every
  read \<open>probes[i]\<close> and \<open>effectiveDurations[i]\<close> is in range; what the code does on
  shorter arrays is outside the model.
\<close>

definition effectiveDurations :: "video list \<Rightarrow> probe list \<Rightarrow> real list" where
  "effectiveDurations videos probes =
     map (\<lambda>i. let full = duration (probes ! i);
                   start = or_num (parseFloat (trimStart (videos ! i))) 0;
                   end' = or_num (parseFloat (trimEnd (videos ! i))) full
               in min end' full - start) [0..<length videos]"

definition totalDuration :: "real list \<Rightarrow> real" where
  "totalDuration effs = foldl (\<lambda>a b. a + b) 0 effs"

subsection \<open>Step 1: scale, pad and trim each input\<close>

definition silence :: "real list \<Rightarrow> nat \<Rightarrow> 'd node" where
  "silence effs i = \<lparr>ins = [], chain = [Aevalsrc (effs ! i)], outs = [A i]\<rparr>"

definition videoFilter :: "video list \<Rightarrow> probe list \<Rightarrow> 'd \<Rightarrow> 'd \<Rightarrow> nat \<Rightarrow> 'd node" where
  "videoFilter videos probes width height i =
     (let start = or_num (parseFloat (trimStart (videos ! i))) 0;
          end' = or_num (parseFloat (trimEnd (videos ! i))) (duration (probes ! i))
      in \<lparr>ins = [SrcV i],
          chain = [Trim start end', Setpts, Scale width height,
                   Pad width height (Some ''black''), Setsar 1],
          outs = [V i]\<rparr>)"

definition audioFilter ::
  "video list \<Rightarrow> probe list \<Rightarrow> real list \<Rightarrow> string \<Rightarrow> nat \<Rightarrow> 'd node" where
  "audioFilter videos probes effs audioOption i =
     (let start = or_num (parseFloat (trimStart (videos ! i))) 0;
          end' = or_num (parseFloat (trimEnd (videos ! i))) (duration (probes ! i))
      in if hasAudio (probes ! i) then
           (if audioOption = ''muteAll'' then silence effs i
            else if audioOption = ''keepFirst'' \<and> i > 0 then silence effs i
            else \<lparr>ins = [SrcA i], chain = [Atrim start end', Asetpts], outs = [A i]\<rparr>)
         else silence effs i)"

text \<open>
  One round of \<open>videos.forEach\<close>: the state is \<open>filters\<close>, \<open>videoLabels\<close> and
  \<open>audioLabels\<close>.
\<close>

definition clipStep ::
  "video list \<Rightarrow> probe list \<Rightarrow> real list \<Rightarrow> 'd \<Rightarrow> 'd \<Rightarrow> string \<Rightarrow>
   'd node list \<times> label list \<times> label list \<Rightarrow> nat \<Rightarrow> 'd node list \<times> label list \<times> label list" where
  "clipStep videos probes effs width height audioOption st i =
     (let (filters, videoLabels, audioLabels) = st
      in (filters @ [videoFilter videos probes width height i,
                     audioFilter videos probes effs audioOption i],
          videoLabels @ [V i], audioLabels @ [A i]))"

subsection \<open>Step 2: concatenate or add transitions\<close>

definition fadeDuration :: real where
  "fadeDuration = 0.5"

definition xfadeDuration :: real where
  "xfadeDuration = 1"

definition fadeStep ::
  "nat \<Rightarrow> real list \<Rightarrow> 'd node list \<times> label list \<times> label list \<Rightarrow> nat \<Rightarrow>
   'd node list \<times> label list \<times> label list" where
  "fadeStep n effs st i =
     (let (filters, fadedVideoLabels, fadedAudioLabels) = st;
          dur = effs ! i;
          (filters1, vf1, af1) =
            (if i > 0 then
               (filters @ [\<lparr>ins = [V i], chain = [Fade In 0 fadeDuration], outs = [Vfin i]\<rparr>,
                           \<lparr>ins = [A i], chain = [Afade In 0 fadeDuration], outs = [Afin i]\<rparr>],
                Vfin i, Afin i)
             else (filters, V i, A i));
          (filters2, vf2, af2) =
            (if i < n - 1 then
               (let fadeStart = max 0 (dur - fadeDuration)
                in (filters1 @
                      [\<lparr>ins = [vf1], chain = [Fade Out fadeStart fadeDuration], outs = [Vfout i]\<rparr>,
                       \<lparr>ins = [af1], chain = [Afade Out fadeStart fadeDuration], outs = [Afout i]\<rparr>],
                    Vfout i, Afout i))
             else (filters1, vf1, af1))
      in (filters2, fadedVideoLabels @ [vf2], fadedAudioLabels @ [af2]))"

text \<open>\<open>vs.map((v, i) => `${v}${as[i]}`).join('')\<close> followed by the concat filter.\<close>

definition concatInput :: "label list \<Rightarrow> label list \<Rightarrow> label list" where
  "concatInput vs as = concat (map (\<lambda>i. [vs ! i, as ! i]) [0..<length vs])"

definition concatFilter :: "nat \<Rightarrow> label list \<Rightarrow> label list \<Rightarrow> 'd node" where
  "concatFilter n vs as =
     \<lparr>ins = concatInput vs as, chain = [Concat n 1 1], outs = [Outv, Outa]\<rparr>"

function crossfadeLoop ::
  "nat \<Rightarrow> real list \<Rightarrow> nat \<Rightarrow> label \<times> label \<times> real \<times> 'd node list \<Rightarrow>
   label \<times> label \<times> real \<times> 'd node list" where
  "crossfadeLoop n effs i (currentVideoLabel, currentAudioLabel, cumulativeOffset, filters) =
     (if i < n then
        (let offset = max 0 (cumulativeOffset - xfadeDuration);
             outV = (if i = n - 1 then Outv else Xv i);
             outA = (if i = n - 1 then Outa else Xa i)
         in crossfadeLoop n effs (i + 1)
              (outV, outA, offset + effs ! i,
               filters @
                 [\<lparr>ins = [currentVideoLabel, V i], chain = [Xfade xfadeDuration offset],
                   outs = [outV]\<rparr>,
                  \<lparr>ins = [currentAudioLabel, A i], chain = [Acrossfade xfadeDuration],
                   outs = [outA]\<rparr>]))
      else (currentVideoLabel, currentAudioLabel, cumulativeOffset, filters))"
  by pat_completeness auto
termination
  by (relation "measure (\<lambda>(n, effs, i, st). n - i)") auto

declare crossfadeLoop.simps [simp del]

text \<open>The three branches of step 2, on the state step 1 has left.\<close>

definition joinStep ::
  "nat \<Rightarrow> real list \<Rightarrow> string \<Rightarrow> 'd node list \<Rightarrow> label list \<Rightarrow> label list \<Rightarrow> 'd node list" where
  "joinStep n effs transition filters videoLabels audioLabels =
     (if transition = ''fade'' \<and> n > 1 then
        (let (filters', fadedVideoLabels, fadedAudioLabels) =
               foldl (fadeStep n effs) (filters, [], []) [0..<n]
         in filters' @ [concatFilter n fadedVideoLabels fadedAudioLabels])
      else if transition = ''crossfade'' \<and> n > 1 then
        snd (snd (snd (crossfadeLoop n effs 1 (V 0, A 0, effs ! 0, filters))))
      else filters @ [concatFilter n videoLabels audioLabels])"

subsection \<open>Step 3 and the whole function\<close>

definition buildFilterGraph ::
  "video list \<Rightarrow> probe list \<Rightarrow> real list \<Rightarrow> 'd \<Rightarrow> 'd \<Rightarrow> string \<Rightarrow> string \<Rightarrow>
   string option \<Rightarrow> 'd graph" where
  "buildFilterGraph videos probes effs width height audioOption transition watermark =
     (let n = length videos;
          (filters1, videoLabels, audioLabels) =
            foldl (clipStep videos probes effs width height audioOption) ([], [], []) [0..<n];
          filters2 = joinStep n effs transition filters1 videoLabels audioLabels;
          filters3 =
            (if has_watermark watermark
             then filters2 @ [drawtext Outv (the watermark) Watermarked] else filters2);
          final = (if has_watermark watermark then Watermarked else Outv)
      in \<lparr>filterGraph = filters3,
          outputs = (if final = Outv then [Outv, Outa] else [final, Outa])\<rparr>)"

section \<open>The two-clip compiler with normalised streams (\<open>mergeVideos\<close>)\<close>

text \<open>The shared audio normalisation chain \<open>AUDIO_NORM\<close>.\<close>

definition AUDIO_NORM :: "'d step list" where
  "AUDIO_NORM = [Aresample 44100, Aformat ''fltp'' ''stereo'']"

definition sanitizeTrim :: "jsval \<Rightarrow> real option" where
  "sanitizeTrim val =
     (if val = Undefined \<or> val = Null \<or> val = Str [] then None else parseFloat val)"

record trim =
  effStart :: real
  effEnd :: real
  needTrim :: bool

text \<open>
  The trim of one clip, as \<open>mergeVideos\<close> computes it for clip 0 and for clip 1:
  \<open>sanitizeTrim(..) || 0\<close> for the start, \<open>sanitizeTrim(..)\<close> for the end, the
  effective values and the test whether trimming is needed.
\<close>

definition resolveTrim :: "jsval \<Rightarrow> jsval \<Rightarrow> probe \<Rightarrow> trim" where
  "resolveTrim requestedStart requestedEnd p =
     (let trimStart' = or_num (sanitizeTrim requestedStart) 0;
          trimEnd' = sanitizeTrim requestedEnd
      in \<lparr>effStart = trimStart',
          effEnd = (case trimEnd' of None \<Rightarrow> duration p | Some e \<Rightarrow> e),
          needTrim = (trimStart' > 0 \<or>
                      (case trimEnd' of None \<Rightarrow> False | Some e \<Rightarrow> e < duration p))\<rparr>)"

definition videoChain :: "'d \<Rightarrow> 'd \<Rightarrow> nat \<Rightarrow> trim \<Rightarrow> 'd node" where
  "videoChain w h i t =
     (if needTrim t then
        \<lparr>ins = [SrcV i],
         chain = [Trim (effStart t) (effEnd t), Setpts, Scale w h, Pad w h None, Fps 30,
                  Format ''yuv420p''],
         outs = [V i]\<rparr>
      else
        \<lparr>ins = [SrcV i], chain = [Scale w h, Pad w h None, Fps 30, Format ''yuv420p''],
         outs = [V i]\<rparr>)"

definition audioChain :: "nat \<Rightarrow> trim \<Rightarrow> probe \<Rightarrow> 'd node" where
  "audioChain i t p =
     (if hasAudio p then
        (if needTrim t then
           \<lparr>ins = [SrcA i], chain = [Atrim (effStart t) (effEnd t), Asetpts] @ AUDIO_NORM,
            outs = [A i]\<rparr>
         else \<lparr>ins = [SrcA i], chain = AUDIO_NORM, outs = [A i]\<rparr>)
      else
        (let dur = (if needTrim t then effEnd t - effStart t else duration p)
         in \<lparr>ins = [], chain = [AevalsrcFmt ''stereo'' 44100 dur] @ AUDIO_NORM,
             outs = [A i]\<rparr>))"

text \<open>
  The graph of \<open>mergeVideos\<close> and the labels it maps to the output; \<open>w\<close> and \<open>h\<close> are
  the two parts of \<open>settings.resolution\<close>.
\<close>

definition mergeVideos ::
  "'d \<Rightarrow> 'd \<Rightarrow> string option \<Rightarrow> jsval \<Rightarrow> jsval \<Rightarrow> jsval \<Rightarrow> jsval \<Rightarrow> probe \<Rightarrow> probe \<Rightarrow>
   'd graph" where
  "mergeVideos w h watermark trimStart0 trimEnd0 trimStart1 trimEnd1 probe0 probe1 =
     (let t0 = resolveTrim trimStart0 trimEnd0 probe0;
          t1 = resolveTrim trimStart1 trimEnd1 probe1;
          filters =
            [videoChain w h 0 t0, audioChain 0 t0 probe0,
             videoChain w h 1 t1, audioChain 1 t1 probe1,
             \<lparr>ins = [V 0, A 0, V 1, A 1], chain = [Concat 2 1 1], outs = [Outv, Outa]\<rparr>]
      in if has_watermark watermark
         then \<lparr>filterGraph = filters @ [drawtext Outv (the watermark) Outv2],
               outputs = [Outv2, Outa]\<rparr>
         else \<lparr>filterGraph = filters, outputs = [Outv, Outa]\<rparr>)"

section \<open>The legacy two-clip helper\<close>

text \<open>
  The first helper builds the graph of two clips in three pieces: the video part, chosen
  by the transition, the audio part, chosen by the audio option, and the watermark.
  Trimming is done by input options there and leaves no trace in the graph. With
  \<open>muteAll\<close> no audio label is mapped to the output.
\<close>

definition legacyVideo :: "'d \<Rightarrow> 'd \<Rightarrow> nat \<Rightarrow> 'd step list \<Rightarrow> 'd node" where
  "legacyVideo w h i extra =
     \<lparr>ins = [SrcV i], chain = [Scale w h, Pad w h None, Setsar 1] @ extra, outs = [V i]\<rparr>"

definition legacyMergeVideos :: "'d \<Rightarrow> 'd \<Rightarrow> string \<Rightarrow> string \<Rightarrow> string option \<Rightarrow> 'd graph" where
  "legacyMergeVideos w h audioOption transition watermark =
     (let videoPart =
            (if transition = ''fade'' then
               [legacyVideo w h 0 [Fade Out 0 0.5], legacyVideo w h 1 [Fade In 0 0.5],
                \<lparr>ins = [V 0, V 1], chain = [Concat 2 1 0], outs = [Outv]\<rparr>]
             else if transition = ''crossfade'' then
               [legacyVideo w h 0 [], legacyVideo w h 1 [],
                \<lparr>ins = [V 0, V 1], chain = [XfadeAuto 1], outs = [Outv]\<rparr>]
             else
               [legacyVideo w h 0 [], legacyVideo w h 1 [],
                \<lparr>ins = [V 0, V 1], chain = [Concat 2 1 0], outs = [Outv]\<rparr>]);
          audioPart =
            (if audioOption = ''muteAll'' then []
             else if audioOption = ''keepFirst'' then
               [\<lparr>ins = [SrcA 0], chain = [Aresample 44100], outs = [Outa]\<rparr>]
             else [\<lparr>ins = [SrcA 0, SrcA 1], chain = [Concat 2 0 1], outs = [Outa]\<rparr>]);
          watermarkFilter =
            (if has_watermark watermark then [drawtext Outv (the watermark) Outv2] else []);
          final = (if watermarkFilter \<noteq> [] then Outv2 else Outv)
      in \<lparr>filterGraph = videoPart @ audioPart @ watermarkFilter,
          outputs = (if audioOption = ''muteAll'' then [final] else [final, Outa])\<rparr>)"

section \<open>Closed forms of the iterations\<close>

text \<open>
  The filters one round of each loop appends, as functions of the clip index. The
  lemmas below show that the iterations of \<open>buildFilterGraph\<close> compute exactly these.
\<close>

definition clipFilters ::
  "video list \<Rightarrow> probe list \<Rightarrow> real list \<Rightarrow> 'd \<Rightarrow> 'd \<Rightarrow> string \<Rightarrow> nat \<Rightarrow> 'd node list" where
  "clipFilters videos probes effs width height audioOption i =
     [videoFilter videos probes width height i, audioFilter videos probes effs audioOption i]"

definition fadeFilters :: "nat \<Rightarrow> real list \<Rightarrow> nat \<Rightarrow> 'd node list" where
  "fadeFilters n effs i =
     (if 0 < i then
        [\<lparr>ins = [V i], chain = [Fade In 0 fadeDuration], outs = [Vfin i]\<rparr>,
         \<lparr>ins = [A i], chain = [Afade In 0 fadeDuration], outs = [Afin i]\<rparr>]
      else []) @
     (if i < n - 1 then
        [\<lparr>ins = [if 0 < i then Vfin i else V i],
          chain = [Fade Out (max 0 (effs ! i - fadeDuration)) fadeDuration], outs = [Vfout i]\<rparr>,
         \<lparr>ins = [if 0 < i then Afin i else A i],
          chain = [Afade Out (max 0 (effs ! i - fadeDuration)) fadeDuration], outs = [Afout i]\<rparr>]
      else [])"

definition fadedV :: "nat \<Rightarrow> nat \<Rightarrow> label" where
  "fadedV n i = (if i < n - 1 then Vfout i else if 0 < i then Vfin i else V i)"

definition fadedA :: "nat \<Rightarrow> nat \<Rightarrow> label" where
  "fadedA n i = (if i < n - 1 then Afout i else if 0 < i then Afin i else A i)"

text \<open>
  One round of the crossfade \<open>for\<close> loop, as a function of the variables the loop
  updates (\<open>currentVideoLabel\<close>, \<open>currentAudioLabel\<close>, \<open>cumulativeOffset\<close>, \<open>filters\<close>) and
  of the index \<open>i\<close>. It pushes the \<open>xfade\<close> filter, which carries \<open>offset\<close>, and the
  \<open>acrossfade\<close> filter, which carries the duration only.
\<close>

definition crossfadeStep ::
  "nat \<Rightarrow> real list \<Rightarrow> label \<times> label \<times> real \<times> 'd node list \<Rightarrow> nat \<Rightarrow>
   label \<times> label \<times> real \<times> 'd node list" where
  "crossfadeStep n effs st i =
     (let (cv, ca, cum, nodes) = st;
          offset = max 0 (cum - xfadeDuration);
          outV = (if i = n - 1 then Outv else Xv i);
          outA = (if i = n - 1 then Outa else Xa i)
      in (outV, outA, offset + effs ! i,
          nodes @ [\<lparr>ins = [cv, V i], chain = [Xfade xfadeDuration offset], outs = [outV]\<rparr>,
                   \<lparr>ins = [ca, A i], chain = [Acrossfade xfadeDuration], outs = [outA]\<rparr>]))"

definition joinFilters :: "nat \<Rightarrow> real list \<Rightarrow> string \<Rightarrow> 'd node list" where
  "joinFilters n effs transition =
     (if transition = ''fade'' \<and> n > 1 then
        concat (map (fadeFilters n effs) [0..<n]) @
        [concatFilter n (map (fadedV n) [0..<n]) (map (fadedA n) [0..<n])]
      else if transition = ''crossfade'' \<and> n > 1 then
        snd (snd (snd (foldl (crossfadeStep n effs) (V 0, A 0, effs ! 0, []) [1..<n])))
      else [concatFilter n (map V [0..<n]) (map A [0..<n])])"

section \<open>The crossfade strategy as specified\<close>

text \<open>
  The crossfade strategy in the words of its specification, for a crossfade duration
  \<open>X\<close>: a running cumulative offset starts at the effective duration of clip 0. For
  each later clip \<open>i\<close> the offset is \<open>max(0, cumulativeOffset - X)\<close>; the current pair is
  blended with the pair of clip \<open>i\<close> by a video blend and an audio crossfade, both
  anchored at that offset; the cumulative offset becomes the offset plus the effective
  duration of clip \<open>i\<close>. The cumulative offset after the last clip is the total nominal
  duration of the output.
\<close>

record blendpair =
  clip :: nat
  videoAnchor :: real
  audioAnchor :: real

definition specCrossfadeStep ::
  "real \<Rightarrow> real list \<Rightarrow> real \<times> blendpair list \<Rightarrow> nat \<Rightarrow> real \<times> blendpair list" where
  "specCrossfadeStep X effs st i =
     (let (cumulativeOffset, blends) = st;
          offset = max 0 (cumulativeOffset - X)
      in (offset + effs ! i,
          blends @ [\<lparr>clip = i, videoAnchor = offset, audioAnchor = offset\<rparr>]))"

definition specCrossfade :: "real \<Rightarrow> real list \<Rightarrow> real \<times> blendpair list" where
  "specCrossfade X effs = foldl (specCrossfadeStep X effs) (effs ! 0, []) [1..<length effs]"

section \<open>Properties of graphs\<close>

text \<open>The filters that write a given label.\<close>

definition producers :: "label \<Rightarrow> 'd node list \<Rightarrow> 'd node list" where
  "producers l nodes = filter (\<lambda>nd. l \<in> set (outs nd)) nodes"

text \<open>Join filters are those that combine clips: concat, xfade and acrossfade.\<close>

fun is_join_step :: "'d step \<Rightarrow> bool" where
  "is_join_step (Concat n v a) = True"
| "is_join_step (Xfade d off) = True"
| "is_join_step (XfadeAuto d) = True"
| "is_join_step (Acrossfade d) = True"
| "is_join_step s = False"

definition is_join :: "'d node \<Rightarrow> bool" where
  "is_join nd = list_ex is_join_step (chain nd)"

fun is_xfade_step :: "'d step \<Rightarrow> bool" where
  "is_xfade_step (Xfade d off) = True"
| "is_xfade_step (XfadeAuto d) = True"
| "is_xfade_step s = False"

definition is_blend :: "'d node \<Rightarrow> bool" where
  "is_blend nd = list_ex is_xfade_step (chain nd)"

text \<open>The components of the state of the crossfade loop.\<close>

definition st_video :: "label \<times> label \<times> real \<times> 'd node list \<Rightarrow> label" where
  "st_video st = fst st"

definition st_audio :: "label \<times> label \<times> real \<times> 'd node list \<Rightarrow> label" where
  "st_audio st = fst (snd st)"

definition st_offset :: "label \<times> label \<times> real \<times> 'd node list \<Rightarrow> real" where
  "st_offset st = fst (snd (snd st))"

definition st_filters :: "label \<times> label \<times> real \<times> 'd node list \<Rightarrow> 'd node list" where
  "st_filters st = snd (snd (snd st))"

fun is_acrossfade_step :: "'d step \<Rightarrow> bool" where
  "is_acrossfade_step (Acrossfade d) = True"
| "is_acrossfade_step s = False"

definition is_acrossfade :: "'d node \<Rightarrow> bool" where
  "is_acrossfade nd = list_ex is_acrossfade_step (chain nd)"

text \<open>
  The offset a filter is anchored at: what the \<open>offset\<close> option in its chain is set to.
  Only \<open>xfade\<close> with a computed offset has one.
\<close>

fun step_offset :: "'d step \<Rightarrow> real option" where
  "step_offset (Xfade d off) = Some off"
| "step_offset s = None"

definition anchor :: "'d node \<Rightarrow> real option" where
  "anchor nd =
     (case List.map_filter step_offset (chain nd) of [] \<Rightarrow> None | off # offs \<Rightarrow> Some off)"

text \<open>A silence source reads no stream and consists of \<open>aevalsrc\<close> alone.\<close>

fun is_silence_chain :: "'d step list \<Rightarrow> bool" where
  "is_silence_chain [Aevalsrc d] = True"
| "is_silence_chain c = False"

definition is_silence :: "'d node \<Rightarrow> bool" where
  "is_silence nd = (ins nd = [] \<and> is_silence_chain (chain nd))"

definition is_real_audio :: "nat \<Rightarrow> 'd node \<Rightarrow> bool" where
  "is_real_audio i nd = (ins nd = [SrcA i])"

text \<open>A chain is normalised when it ends with the given operations.\<close>

definition ends_with :: "'a list \<Rightarrow> 'a list \<Rightarrow> bool" where
  "ends_with sfx xs = (length sfx \<le> length xs \<and> drop (length xs - length sfx) xs = sfx)"

definition audio_normalised :: "'d node \<Rightarrow> bool" where
  "audio_normalised nd = ends_with AUDIO_NORM (chain nd)"

definition video_normalised :: "'d \<Rightarrow> 'd \<Rightarrow> 'd node \<Rightarrow> bool" where
  "video_normalised w h nd =
     ends_with [Scale w h, Pad w h None, Fps 30, Format ''yuv420p''] (chain nd)"

text \<open>
  A node list is closed when every label a filter reads is a raw stream of one of the
  \<open>n\<close> inputs or was written by a filter before it.
\<close>

fun raw_input :: "nat \<Rightarrow> label \<Rightarrow> bool" where
  "raw_input n (SrcV i) = (i < n)"
| "raw_input n (SrcA i) = (i < n)"
| "raw_input n l = False"

fun closed_from :: "nat \<Rightarrow> label set \<Rightarrow> 'd node list \<Rightarrow> bool" where
  "closed_from n produced [] = True"
| "closed_from n produced (nd # nds) =
     ((\<forall>l \<in> set (ins nd). raw_input n l \<or> l \<in> produced) \<and>
      closed_from n (produced \<union> set (outs nd)) nds)"

definition produced_labels :: "'d node list \<Rightarrow> label list" where
  "produced_labels nodes = concat (map outs nodes)"

text \<open>
  The filters a label depends on: the list is scanned from its end, collecting every
  filter that writes a wanted label and then wanting what that filter reads.
\<close>

fun path_to :: "label list \<Rightarrow> 'd node list \<Rightarrow> 'd node list" where
  "path_to want [] = []"
| "path_to want (nd # nds) =
     (if list_ex (\<lambda>l. l \<in> set want) (outs nd) then nd # path_to (ins nd @ want) nds
      else path_to want nds)"

definition audio_path :: "'d graph \<Rightarrow> 'd node list" where
  "audio_path g = rev (path_to [finalAudioLabel g] (rev (filterGraph g)))"

text \<open>
  In the text of a filter option a backslash escapes the character after it, whatever
  that character is; so of two backslashes the first escapes the second, and the
  character after them is not escaped. A text has no unescaped reserved character when
  every quote and every colon in it is escaped in this sense. The text is read from the
  left; the flag says whether the next character is escaped.
\<close>

fun all_escaped :: "bool \<Rightarrow> string \<Rightarrow> bool" where
  "all_escaped esc [] = True"
| "all_escaped esc (c # cs) =
     (if esc then all_escaped False cs
      else if c = backslash then all_escaped True cs
      else c \<noteq> quote \<and> c \<noteq> colon \<and> all_escaped False cs)"

text \<open>
  Some quote or colon of the text stands directly after an odd number of backslashes;
  the flag says whether the backslashes read so far are odd in number.
\<close>

fun reserved_after_odd_run :: "bool \<Rightarrow> string \<Rightarrow> bool" where
  "reserved_after_odd_run b [] = False"
| "reserved_after_odd_run b (c # cs) =
     (if c = backslash then reserved_after_odd_run (\<not> b) cs
      else ((c = quote \<or> c = colon) \<and> b) \<or> reserved_after_odd_run False cs)"

definition escape_char :: "char \<Rightarrow> string" where
  "escape_char c = (if c = quote \<or> c = colon then [backslash, c] else [c])"

section \<open>The iterations and their closed forms\<close>

lemma foldl_clipStep:
  "foldl (clipStep videos probes effs w h ao) (fs, vs, as) xs =
     (fs @ concat (map (clipFilters videos probes effs w h ao) xs), vs @ map V xs, as @ map A xs)"
  by (induction xs arbitrary: fs vs as) (simp_all add: clipStep_def clipFilters_def)

lemma fadeStep_eq:
  "fadeStep n effs (fs, vs, as) i = (fs @ fadeFilters n effs i, vs @ [fadedV n i], as @ [fadedA n i])"
  by (simp add: fadeStep_def fadeFilters_def fadedV_def fadedA_def Let_def)

lemma foldl_fadeStep:
  "foldl (fadeStep n effs) (fs, vs, as) xs =
     (fs @ concat (map (fadeFilters n effs) xs), vs @ map (fadedV n) xs, as @ map (fadedA n) xs)"
  by (induction xs arbitrary: fs vs as) (simp_all add: fadeStep_eq)

lemma crossfadeStep_eq:
  "crossfadeStep n effs (cv, ca, cum, fs) i =
     (if i = n - 1 then Outv else Xv i, if i = n - 1 then Outa else Xa i,
      max 0 (cum - xfadeDuration) + effs ! i,
      fs @ [\<lparr>ins = [cv, V i], chain = [Xfade xfadeDuration (max 0 (cum - xfadeDuration))],
              outs = [if i = n - 1 then Outv else Xv i]\<rparr>,
            \<lparr>ins = [ca, A i], chain = [Acrossfade xfadeDuration],
              outs = [if i = n - 1 then Outa else Xa i]\<rparr>])"
  by (simp add: crossfadeStep_def Let_def)

lemma crossfadeLoop_foldl:
  "crossfadeLoop n effs i st = foldl (crossfadeStep n effs) st [i..<n]"
proof (induction n effs i st rule: crossfadeLoop.induct)
  case (1 n effs i cv ca cum fs)
  show ?case
  proof (cases "i < n")
    case True
    have "crossfadeLoop n effs i (cv, ca, cum, fs) =
        crossfadeLoop n effs (i + 1) (crossfadeStep n effs (cv, ca, cum, fs) i)"
      using True by (subst crossfadeLoop.simps) (simp add: crossfadeStep_def Let_def)
    also have "\<dots> = foldl (crossfadeStep n effs) (crossfadeStep n effs (cv, ca, cum, fs) i) [i + 1..<n]"
      unfolding crossfadeStep_eq by (rule 1 [OF True refl refl refl])
    also have "\<dots> = foldl (crossfadeStep n effs) (cv, ca, cum, fs) [i..<n]"
      using True by (simp add: upt_conv_Cons)
    finally show ?thesis .
  next
    case False
    then show ?thesis by (subst crossfadeLoop.simps) simp
  qed
qed

lemma crossfadeStep_filters:
  "\<exists>cv' ca' cum' ab. \<forall>fs :: 'd node list.
     crossfadeStep n effs (cv, ca, cum, fs) x = (cv', ca', cum', fs @ ab)"
  by (simp add: crossfadeStep_def Let_def)

lemma foldl_crossfadeStep_filters:
  "snd (snd (snd (foldl (crossfadeStep n effs) (cv, ca, cum, fs) xs))) =
     fs @ snd (snd (snd (foldl (crossfadeStep n effs) (cv, ca, cum, []) xs)))"
proof (induction xs arbitrary: cv ca cum fs)
  case Nil
  show ?case by simp
next
  case (Cons x xs)
  obtain cv' ca' cum' and ab :: "'a node list" where
    s: "\<And>fs. crossfadeStep n effs (cv, ca, cum, fs) x = (cv', ca', cum', fs @ ab)"
    using crossfadeStep_filters [of n effs cv ca cum x] by blast
  show ?case
    by (simp add: s Cons.IH [of cv' ca' cum' "fs @ ab"] Cons.IH [of cv' ca' cum' ab])
qed

lemma joinStep_eq:
  "joinStep n effs tr fs (map V [0..<n]) (map A [0..<n]) = fs @ joinFilters n effs tr"
proof -
  have x: "snd (snd (snd (crossfadeLoop n effs 1 (V 0, A 0, effs ! 0, fs)))) =
      fs @ snd (snd (snd (foldl (crossfadeStep n effs) (V 0, A 0, effs ! 0, []) [1..<n])))"
    unfolding crossfadeLoop_foldl by (rule foldl_crossfadeStep_filters)
  show ?thesis
    unfolding joinStep_def joinFilters_def foldl_fadeStep x by simp
qed

lemma buildFilterGraph_eq:
  "buildFilterGraph videos probes effs w h ao tr wm =
     \<lparr>filterGraph =
        concat (map (clipFilters videos probes effs w h ao) [0..<length videos]) @
        joinFilters (length videos) effs tr @
        (if has_watermark wm then [drawtext Outv (the wm) Watermarked] else []),
      outputs = [if has_watermark wm then Watermarked else Outv, Outa]\<rparr>"
  unfolding buildFilterGraph_def Let_def foldl_clipStep
  by (simp add: joinStep_eq)

section \<open>Helper facts\<close>

lemmas parse_defs =
  parseFloatStr_def split_sign_def is_ws_def is_digit_def digits_val_def digit_val_def
  exponent_part_def or_num_def

lemma safeText_map: "safeText w = concat (map escape_char w)"
  by (induction w) (simp_all add: safeText_def replace_all_def escape_char_def)

lemma all_escaped_safeText:
  "all_escaped b (safeText w) = (\<not> reserved_after_odd_run b w)"
  unfolding safeText_map
  by (induction w arbitrary: b) (auto simp: escape_char_def)

lemma reserved_after_odd_run_no_backslash:
  "backslash \<notin> set w \<Longrightarrow> \<not> reserved_after_odd_run False w"
  by (induction w) auto

lemma length_safeText:
  "length (safeText w) = length w + length (filter (\<lambda>c. c = quote \<or> c = colon) w)"
  unfolding safeText_map by (induction w) (simp_all add: escape_char_def)

lemma filter_safeText:
  "filter (\<lambda>c. c = quote \<or> c = colon) (safeText w) = filter (\<lambda>c. c = quote \<or> c = colon) w"
  unfolding safeText_map by (induction w) (simp_all add: escape_char_def)

lemma safeText_id: "quote \<notin> set v \<and> colon \<notin> set v \<Longrightarrow> safeText v = v"
  unfolding safeText_map by (induction v) (auto simp: escape_char_def)

lemma safeText_idem_iff:
  "safeText (safeText w) = safeText w \<longleftrightarrow> quote \<notin> set w \<and> colon \<notin> set w"
proof
  assume "safeText (safeText w) = safeText w"
  then have "length (safeText (safeText w)) = length (safeText w)" by simp
  then have "length (filter (\<lambda>c. c = quote \<or> c = colon) w) = 0"
    by (simp add: length_safeText [of "safeText w"] filter_safeText)
  then show "quote \<notin> set w \<and> colon \<notin> set w"
    by (auto simp: filter_empty_conv)
next
  assume "quote \<notin> set w \<and> colon \<notin> set w"
  then show "safeText (safeText w) = safeText w" by (simp add: safeText_id)
qed

lemma has_watermark_None: "\<not> has_watermark None"
  by (simp add: has_watermark_def)

lemma has_watermark_blank:
  assumes "\<forall>c \<in> set w. is_ws c"
  shows "\<not> has_watermark (Some w)"
proof -
  from assms have d: "dropWhile is_ws w = []" by (simp add: dropWhile_eq_Nil_conv)
  have "jsTrim w = []"
    unfolding jsTrim_def by (simp only: d rev.simps dropWhile.simps)
  then show ?thesis by (simp add: has_watermark_def)
qed

lemma outs_videoFilter [simp]: "outs (videoFilter videos probes w h i) = [V i]"
  by (simp add: videoFilter_def Let_def)

lemma outs_audioFilter [simp]: "outs (audioFilter videos probes effs ao i) = [A i]"
  by (simp add: audioFilter_def silence_def Let_def)

lemma ins_videoFilter [simp]: "ins (videoFilter videos probes w h i) = [SrcV i]"
  by (simp add: videoFilter_def Let_def)

lemma not_join_clipFilters:
  "nd \<in> set (clipFilters videos probes effs w h ao i) \<Longrightarrow> \<not> is_join nd"
  by (auto simp: clipFilters_def is_join_def videoFilter_def audioFilter_def silence_def Let_def
      split: if_splits)

lemma filter_join_step1:
  "filter is_join (concat (map (clipFilters videos probes effs w h ao) xs)) = []"
  by (auto simp: filter_empty_conv dest: not_join_clipFilters)

lemma concat_map_single:
  "i < n \<Longrightarrow> concat (map (\<lambda>j. if j = i then g j else []) [0..<n]) = g i"
proof (induction n)
  case 0
  then show ?case by simp
next
  case (Suc n)
  show ?case
  proof (cases "i = n")
    case True
    have "concat (map (\<lambda>j. if j = i then g j else []) [0..<n]) = []"
      using True by (simp add: concat_eq_Nil_conv)
    then show ?thesis using True by simp
  next
    case False
    with Suc show ?thesis by simp
  qed
qed

lemma producers_append [simp]: "producers l (xs @ ys) = producers l xs @ producers l ys"
  by (simp add: producers_def)

lemma producers_concat_map:
  "producers l (concat (map f xs)) = concat (map (\<lambda>j. producers l (f j)) xs)"
  by (simp add: producers_def filter_concat comp_def)

lemma producers_A_step1:
  assumes "i < n"
  shows "producers (A i) (concat (map (clipFilters videos probes effs w h ao) [0..<n])) =
           [audioFilter videos probes effs ao i]"
proof -
  have "producers (A i) (clipFilters videos probes effs w h ao j) =
      (if j = i then [audioFilter videos probes effs ao j] else [])" for j
    by (simp add: producers_def clipFilters_def)
  then show ?thesis
    unfolding producers_concat_map using concat_map_single [OF assms] by simp
qed

lemma foldl_crossfadeStep_Cons:
  "snd (snd (snd (foldl (crossfadeStep n effs) (cv, ca, cum, []) (x # xs)))) =
     [\<lparr>ins = [cv, V x], chain = [Xfade xfadeDuration (max 0 (cum - xfadeDuration))],
        outs = [if x = n - 1 then Outv else Xv x]\<rparr>,
      \<lparr>ins = [ca, A x], chain = [Acrossfade xfadeDuration],
        outs = [if x = n - 1 then Outa else Xa x]\<rparr>] @
     snd (snd (snd (foldl (crossfadeStep n effs)
       (if x = n - 1 then Outv else Xv x, if x = n - 1 then Outa else Xa x,
        max 0 (cum - xfadeDuration) + effs ! x, []) xs)))"
  unfolding foldl_Cons crossfadeStep_eq
  by (subst foldl_crossfadeStep_filters) simp

lemma crossfade_outs:
  "map outs (snd (snd (snd (foldl (crossfadeStep n effs) (cv, ca, cum, []) xs)))) =
     concat (map (\<lambda>x. [ [if x = n - 1 then Outv else Xv x], [if x = n - 1 then Outa else Xa x] ]) xs)"
proof (induction xs arbitrary: cv ca cum)
  case Nil
  show ?case by simp
next
  case (Cons x xs)
  show ?case
    unfolding foldl_crossfadeStep_Cons by (simp add: Cons.IH)
qed

lemma producers_eq_Nil:
  "(\<And>o'. o' \<in> set (map outs nodes) \<Longrightarrow> l \<notin> set o') \<Longrightarrow> producers l nodes = []"
  by (auto simp: producers_def filter_empty_conv)

lemma fadeFilters_outs:
  "map outs (fadeFilters n effs i) =
     (if 0 < i then [ [Vfin i], [Afin i] ] else []) @ (if i < n - 1 then [ [Vfout i], [Afout i] ] else [])"
  by (simp add: fadeFilters_def)

lemma joinFilters_map_outs:
  "map outs (joinFilters n effs tr) =
     (if tr = ''fade'' \<and> 1 < n then
        concat (map (\<lambda>i. (if 0 < i then [ [Vfin i], [Afin i] ] else []) @
                         (if i < n - 1 then [ [Vfout i], [Afout i] ] else [])) [0..<n]) @
        [ [Outv, Outa] ]
      else if tr = ''crossfade'' \<and> 1 < n then
        concat (map (\<lambda>x. [ [if x = n - 1 then Outv else Xv x],
                          [if x = n - 1 then Outa else Xa x] ]) [1..<n])
      else [ [Outv, Outa] ])"
  by (simp add: joinFilters_def crossfade_outs map_concat comp_def fadeFilters_outs
      concatFilter_def)

lemma producers_A_join [simp]: "producers (A i) (joinFilters n effs tr) = []"
proof (rule producers_eq_Nil)
  fix o' assume "o' \<in> set (map outs (joinFilters n effs tr))"
  then show "A i \<notin> set o'"
    unfolding joinFilters_map_outs by (auto split: if_splits)
qed

lemma producers_A_graph:
  assumes "i < length videos"
  shows "producers (A i) (filterGraph (buildFilterGraph videos probes effs w h ao tr wm)) =
           [audioFilter videos probes effs ao i]"
  by (simp add: buildFilterGraph_eq producers_A_step1 [OF assms])
     (simp add: producers_def drawtext_def)

lemma concatInput_labels:
  "concatInput (map f [0..<n]) (map g [0..<n]) = concat (map (\<lambda>i. [f i, g i]) [0..<n])"
proof -
  have m: "map (\<lambda>i. [map f [0..<n] ! i, map g [0..<n] ! i]) [0..<n] =
      map (\<lambda>i. [f i, g i]) [0..<n]"
    by (rule map_cong) simp_all
  have l: "length (map f [0..<n]) = n" by simp
  show ?thesis unfolding concatInput_def l m by (rule refl)
qed

lemma is_join_concatFilter [simp]: "is_join (concatFilter n vs as)"
  by (simp add: is_join_def concatFilter_def)

lemma not_join_drawtext [simp]: "\<not> is_join (drawtext a b c)"
  by (simp add: is_join_def drawtext_def)

lemma audioFilter_policy:
  "(ao = ''muteAll'' \<longrightarrow> is_silence (audioFilter videos probes effs ao i :: 'd node)) \<and>
   (ao = ''keepFirst'' \<and> 0 < i \<longrightarrow> is_silence (audioFilter videos probes effs ao i :: 'd node)) \<and>
   (ao = ''keepFirst'' \<and> i = 0 \<longrightarrow>
      is_real_audio i (audioFilter videos probes effs ao i :: 'd node) = hasAudio (probes ! i) \<and>
      is_silence (audioFilter videos probes effs ao i :: 'd node) = (\<not> hasAudio (probes ! i))) \<and>
   (ao = ''keepAll'' \<longrightarrow>
      is_real_audio i (audioFilter videos probes effs ao i :: 'd node) = hasAudio (probes ! i) \<and>
      is_silence (audioFilter videos probes effs ao i :: 'd node) = (\<not> hasAudio (probes ! i)))"
  by (simp add: audioFilter_def silence_def is_silence_def is_real_audio_def Let_def)

lemma producers_step1_other:
  "(\<And>j. l \<noteq> V j \<and> l \<noteq> A j) \<Longrightarrow>
     producers l (concat (map (clipFilters videos probes effs w h ao) xs)) = []"
  by (rule producers_eq_Nil) (auto simp: clipFilters_def)

lemma producers_fade:
  assumes "i < n"
  shows "producers (Vfin i) (concat (map (fadeFilters n effs) [0..<n])) =
           (if 0 < i then [\<lparr>ins = [V i], chain = [Fade In 0 fadeDuration], outs = [Vfin i]\<rparr>]
            else [])"
    and "producers (Afin i) (concat (map (fadeFilters n effs) [0..<n])) =
           (if 0 < i then [\<lparr>ins = [A i], chain = [Afade In 0 fadeDuration], outs = [Afin i]\<rparr>]
            else [])"
    and "producers (Vfout i) (concat (map (fadeFilters n effs) [0..<n])) =
           (if i < n - 1 then
              [\<lparr>ins = [if 0 < i then Vfin i else V i],
                chain = [Fade Out (max 0 (effs ! i - fadeDuration)) fadeDuration],
                outs = [Vfout i]\<rparr>]
            else [])"
    and "producers (Afout i) (concat (map (fadeFilters n effs) [0..<n])) =
           (if i < n - 1 then
              [\<lparr>ins = [if 0 < i then Afin i else A i],
                chain = [Afade Out (max 0 (effs ! i - fadeDuration)) fadeDuration],
                outs = [Afout i]\<rparr>]
            else [])"
proof -
  have 1: "producers (Vfin i) (fadeFilters n effs j) =
      (if j = i then (if 0 < i then [\<lparr>ins = [V i], chain = [Fade In 0 fadeDuration], outs = [Vfin i]\<rparr>]
            else []) else [])" for j
    by (simp add: producers_def fadeFilters_def)
  have 2: "producers (Afin i) (fadeFilters n effs j) =
      (if j = i then (if 0 < i then [\<lparr>ins = [A i], chain = [Afade In 0 fadeDuration], outs = [Afin i]\<rparr>]
            else []) else [])" for j
    by (simp add: producers_def fadeFilters_def)
  have 3: "producers (Vfout i) (fadeFilters n effs j) =
      (if j = i then (if i < n - 1 then
              [\<lparr>ins = [if 0 < i then Vfin i else V i],
                chain = [Fade Out (max 0 (effs ! i - fadeDuration)) fadeDuration],
                outs = [Vfout i]\<rparr>]
            else []) else [])" for j
    by (simp add: producers_def fadeFilters_def)
  have 4: "producers (Afout i) (fadeFilters n effs j) =
      (if j = i then (if i < n - 1 then
              [\<lparr>ins = [if 0 < i then Afin i else A i],
                chain = [Afade Out (max 0 (effs ! i - fadeDuration)) fadeDuration],
                outs = [Afout i]\<rparr>]
            else []) else [])" for j
    by (simp add: producers_def fadeFilters_def)
  show "producers (Vfin i) (concat (map (fadeFilters n effs) [0..<n])) =
           (if 0 < i then [\<lparr>ins = [V i], chain = [Fade In 0 fadeDuration], outs = [Vfin i]\<rparr>]
            else [])"
    unfolding producers_concat_map 1 by (rule concat_map_single [OF assms])
  show "producers (Afin i) (concat (map (fadeFilters n effs) [0..<n])) =
           (if 0 < i then [\<lparr>ins = [A i], chain = [Afade In 0 fadeDuration], outs = [Afin i]\<rparr>]
            else [])"
    unfolding producers_concat_map 2 by (rule concat_map_single [OF assms])
  show "producers (Vfout i) (concat (map (fadeFilters n effs) [0..<n])) =
           (if i < n - 1 then
              [\<lparr>ins = [if 0 < i then Vfin i else V i],
                chain = [Fade Out (max 0 (effs ! i - fadeDuration)) fadeDuration],
                outs = [Vfout i]\<rparr>]
            else [])"
    unfolding producers_concat_map 3 by (rule concat_map_single [OF assms])
  show "producers (Afout i) (concat (map (fadeFilters n effs) [0..<n])) =
           (if i < n - 1 then
              [\<lparr>ins = [if 0 < i then Afin i else A i],
                chain = [Afade Out (max 0 (effs ! i - fadeDuration)) fadeDuration],
                outs = [Afout i]\<rparr>]
            else [])"
    unfolding producers_concat_map 4 by (rule concat_map_single [OF assms])
qed

lemma not_join_fadeFilters:
  "filter is_join (concat (map (fadeFilters n effs) xs)) = []"
  by (auto simp: filter_empty_conv fadeFilters_def is_join_def split: if_splits)

lemma totalDuration_sum: "totalDuration effs = sum_list effs"
proof -
  have "foldl (\<lambda>a b. a + b) s effs = s + sum_list effs" for s :: real
    by (induction effs arbitrary: s) simp_all
  then show ?thesis by (simp add: totalDuration_def)
qed

lemma fade_graph:
  assumes "1 < length videos"
  shows "filterGraph (buildFilterGraph videos probes effs w h ao ''fade'' wm) =
     concat (map (clipFilters videos probes effs w h ao) [0..<length videos]) @
     concat (map (fadeFilters (length videos) effs) [0..<length videos]) @
     [concatFilter (length videos) (map (fadedV (length videos)) [0..<length videos])
        (map (fadedA (length videos)) [0..<length videos])] @
     (if has_watermark wm then [drawtext Outv (the wm) Watermarked] else [])"
  using assms by (simp add: buildFilterGraph_eq joinFilters_def)

lemma producers_Nil [simp]: "producers l [] = []"
  by (simp add: producers_def)

lemma producers_Cons [simp]:
  "producers l (nd # nds) = (if l \<in> set (outs nd) then nd # producers l nds else producers l nds)"
  by (simp add: producers_def)

lemma outs_concatFilter [simp]: "outs (concatFilter n vs as) = [Outv, Outa]"
  by (simp add: concatFilter_def)

lemma outs_drawtext [simp]: "outs (drawtext src wm dst) = [dst]"
  by (simp add: drawtext_def)

lemma crossfade_cum:
  assumes "length effs = n"
  shows "1 \<le> i \<Longrightarrow> i \<le> n \<Longrightarrow>
     cum = sum_list (take i effs) - real (i - 1) * xfadeDuration \<Longrightarrow>
     (\<forall>j. i \<le> j \<and> j < n \<longrightarrow> real j * xfadeDuration \<le> sum_list (take j effs)) \<Longrightarrow>
     fst (snd (snd (foldl (crossfadeStep n effs) (cv, ca, cum, fs) [i..<n]))) =
       sum_list effs - real (n - 1) * xfadeDuration"
proof (induction "n - i" arbitrary: i cv ca cum fs)
  case 0
  then have "i = n" by simp
  with 0 assms show ?case by simp
next
  case (Suc k)
  then have lt: "i < n" by simp
  then have u: "[i..<n] = i # [Suc i..<n]" by (simp add: upt_conv_Cons)
  from Suc.prems lt have "real i * xfadeDuration \<le> sum_list (take i effs)" by simp
  with Suc.prems(1) Suc.prems(3) have nc: "0 \<le> cum - xfadeDuration"
    by (simp add: xfadeDuration_def of_nat_diff)
  have t: "take (Suc i) effs = take i effs @ [effs ! i]"
    using lt assms by (simp add: take_Suc_conv_app_nth)
  have c': "max 0 (cum - xfadeDuration) + effs ! i =
      sum_list (take (Suc i) effs) - real (Suc i - 1) * xfadeDuration"
    using nc Suc.prems(1) Suc.prems(3) by (simp add: t xfadeDuration_def of_nat_diff)
  have k: "k = n - Suc i" using Suc.hyps(2) by simp
  have "fst (snd (snd (foldl (crossfadeStep n effs)
      (if i = n - 1 then Outv else Xv i, if i = n - 1 then Outa else Xa i,
       max 0 (cum - xfadeDuration) + effs ! i,
       fs @ [\<lparr>ins = [cv, V i], chain = [Xfade xfadeDuration (max 0 (cum - xfadeDuration))],
              outs = [if i = n - 1 then Outv else Xv i]\<rparr>,
            \<lparr>ins = [ca, A i], chain = [Acrossfade xfadeDuration],
              outs = [if i = n - 1 then Outa else Xa i]\<rparr>]) [Suc i..<n]))) =
       sum_list effs - real (n - 1) * xfadeDuration"
    using Suc.prems lt by (intro Suc.hyps(1) [OF k _ _ c']) simp_all
  then show ?case unfolding u foldl_Cons crossfadeStep_eq .
qed

lemma crossfade_final_labels:
  assumes "i < n"
  shows "fst (foldl (crossfadeStep n effs) st [i..<n]) = Outv \<and>
         fst (snd (foldl (crossfadeStep n effs) st [i..<n])) = Outa"
proof -
  from assms obtain m where n: "n = Suc m" by (cases n) auto
  with assms have u: "[i..<n] = [i..<m] @ [m]" by simp
  obtain cv ca cum fs where s: "foldl (crossfadeStep n effs) st [i..<m] = (cv, ca, cum, fs)"
    by (cases "foldl (crossfadeStep n effs) st [i..<m]") auto
  show ?thesis unfolding u foldl_append s by (simp add: crossfadeStep_eq n)
qed

lemma xnode_simps:
  "is_join \<lparr>ins = a, chain = [Xfade d off], outs = b\<rparr>"
  "is_join \<lparr>ins = a, chain = [Acrossfade d], outs = b\<rparr>"
  "is_blend \<lparr>ins = a, chain = [Xfade d off], outs = b\<rparr>"
  "\<not> is_blend \<lparr>ins = a, chain = [Acrossfade d], outs = b\<rparr>"
  "\<not> is_acrossfade \<lparr>ins = a, chain = [Xfade d off], outs = b\<rparr>"
  "is_acrossfade \<lparr>ins = a, chain = [Acrossfade d], outs = b\<rparr>"
  by (simp_all add: is_join_def is_blend_def is_acrossfade_def)

lemma crossfade_all_join:
  "filter is_join (snd (snd (snd (foldl (crossfadeStep n effs) (cv, ca, cum, []) xs)))) =
     snd (snd (snd (foldl (crossfadeStep n effs) (cv, ca, cum, []) xs)))"
proof (induction xs arbitrary: cv ca cum)
  case Nil
  show ?case by simp
next
  case (Cons x xs)
  show ?case unfolding foldl_crossfadeStep_Cons by (simp add: Cons.IH xnode_simps)
qed

lemma crossfade_counts:
  "length (filter is_blend (snd (snd (snd (foldl (crossfadeStep n effs) (cv, ca, cum, []) xs))))) =
     length xs \<and>
   length (filter is_acrossfade
     (snd (snd (snd (foldl (crossfadeStep n effs) (cv, ca, cum, []) xs))))) = length xs"
proof (induction xs arbitrary: cv ca cum)
  case Nil
  show ?case by simp
next
  case (Cons x xs)
  show ?case unfolding foldl_crossfadeStep_Cons
    by (simp add: Cons.IH xnode_simps)
qed

lemma not_blend_step1:
  "filter is_blend (concat (map (clipFilters videos probes effs w h ao) xs)) = [] \<and>
   filter is_acrossfade (concat (map (clipFilters videos probes effs w h ao) xs)) = []"
  by (auto simp: filter_empty_conv clipFilters_def is_blend_def is_acrossfade_def
      videoFilter_def audioFilter_def silence_def Let_def split: if_splits)

lemma crossfade_graph:
  assumes "1 < length videos"
  shows "filterGraph (buildFilterGraph videos probes effs w h ao ''crossfade'' wm) =
     concat (map (clipFilters videos probes effs w h ao) [0..<length videos]) @
     st_filters (foldl (crossfadeStep (length videos) effs) (V 0, A 0, effs ! 0, [])
                  [1..<length videos]) @
     (if has_watermark wm then [drawtext Outv (the wm) Watermarked] else [])"
  using assms by (simp add: buildFilterGraph_eq joinFilters_def st_filters_def)

lemma not_blend_drawtext [simp]:
  "\<not> is_blend (drawtext a b c)" "\<not> is_acrossfade (drawtext a b c)"
  by (simp_all add: is_blend_def is_acrossfade_def drawtext_def)

lemma not_blend_clipFilters:
  "filter is_blend (clipFilters videos probes effs w h ao i) = []"
  "filter is_acrossfade (clipFilters videos probes effs w h ao i) = []"
  using not_blend_step1 [of videos probes effs w h ao "[i]"] by simp_all

lemma anchor_simps:
  "anchor \<lparr>ins = a, chain = [Xfade d off], outs = b\<rparr> = Some off"
  "anchor \<lparr>ins = a, chain = [Acrossfade d], outs = b\<rparr> = None"
  by (simp_all add: anchor_def List.map_filter_simps)

lemma crossfade_refines_spec:
  "map anchor (filter is_blend fs) = map (\<lambda>b. Some (videoAnchor b)) bl \<Longrightarrow>
   fst (snd (snd (foldl (crossfadeStep n effs) (cv, ca, cum, fs) xs))) =
     fst (foldl (specCrossfadeStep xfadeDuration effs) (cum, bl) xs) \<and>
   map anchor (filter is_blend (snd (snd (snd (foldl (crossfadeStep n effs) (cv, ca, cum, fs) xs))))) =
     map (\<lambda>b. Some (videoAnchor b)) (snd (foldl (specCrossfadeStep xfadeDuration effs) (cum, bl) xs))"
proof (induction xs arbitrary: cv ca cum fs bl)
  case Nil
  then show ?case by simp
next
  case (Cons x xs)
  let ?off = "max 0 (cum - xfadeDuration)"
  let ?cv = "if x = n - 1 then Outv else Xv x"
  let ?ca = "if x = n - 1 then Outa else Xa x"
  let ?fs = "fs @ [\<lparr>ins = [cv, V x], chain = [Xfade xfadeDuration ?off], outs = [?cv]\<rparr>,
                   \<lparr>ins = [ca, A x], chain = [Acrossfade xfadeDuration], outs = [?ca]\<rparr>]"
  let ?bl = "bl @ [\<lparr>clip = x, videoAnchor = ?off, audioAnchor = ?off\<rparr>]"
  have p: "map anchor (filter is_blend ?fs) = map (\<lambda>b. Some (videoAnchor b)) ?bl"
    using Cons.prems by (simp add: xnode_simps anchor_simps)
  have s: "specCrossfadeStep xfadeDuration effs (cum, bl) x = (?off + effs ! x, ?bl)"
    by (simp add: specCrossfadeStep_def Let_def)
  show ?case
    unfolding foldl_Cons crossfadeStep_eq s
    by (rule Cons.IH [OF p])
qed

lemma spec_anchors:
  "map audioAnchor bl = map videoAnchor bl \<and> map clip bl = ys \<Longrightarrow>
   map audioAnchor (snd (foldl (specCrossfadeStep X effs) (cum, bl) xs)) =
     map videoAnchor (snd (foldl (specCrossfadeStep X effs) (cum, bl) xs)) \<and>
   map clip (snd (foldl (specCrossfadeStep X effs) (cum, bl) xs)) = ys @ xs"
proof (induction xs arbitrary: cum bl ys)
  case Nil
  then show ?case by simp
next
  case (Cons x xs)
  let ?off = "max 0 (cum - X)"
  let ?bl = "bl @ [\<lparr>clip = x, videoAnchor = ?off, audioAnchor = ?off\<rparr>]"
  have s: "specCrossfadeStep X effs (cum, bl) x = (?off + effs ! x, ?bl)"
    by (simp add: specCrossfadeStep_def Let_def)
  have p: "map audioAnchor ?bl = map videoAnchor ?bl \<and> map clip ?bl = ys @ [x]"
    using Cons.prems by simp
  show ?case
    unfolding foldl_Cons s using Cons.IH [OF p] by simp
qed

lemma crossfade_audio_nodes:
  "filter is_acrossfade (snd (snd (snd (foldl (crossfadeStep n effs) (cv, ca, cum, []) [i..<n])))) =
     map (\<lambda>j. \<lparr>ins = [if j = i then ca else Xa (j - 1), A j],
                chain = [Acrossfade xfadeDuration],
                outs = [if j = n - 1 then Outa else Xa j]\<rparr>) [i..<n]"
proof (induction "n - i" arbitrary: i cv ca cum)
  case 0
  then show ?case by simp
next
  case (Suc k)
  then have lt: "i < n" by simp
  then have u: "[i..<n] = i # [Suc i..<n]" by (simp add: upt_conv_Cons)
  have k: "k = n - Suc i" using Suc.hyps(2) by simp
  have m: "map (\<lambda>j. \<lparr>ins = [if j = Suc i then (if i = n - 1 then Outa else Xa i) else Xa (j - 1), A j],
                chain = [Acrossfade xfadeDuration],
                outs = [if j = n - 1 then Outa else Xa j]\<rparr> :: 'a node) [Suc i..<n] =
      map (\<lambda>j. \<lparr>ins = [if j = i then ca else Xa (j - 1), A j],
                chain = [Acrossfade xfadeDuration],
                outs = [if j = n - 1 then Outa else Xa j]\<rparr>) [Suc i..<n]"
    by (rule map_cong) auto
  show ?case
    unfolding u foldl_crossfadeStep_Cons
    by (simp add: xnode_simps Suc.hyps(1) [OF k] m)
qed

lemma closed_from_append:
  "closed_from n P (xs @ ys) =
     (closed_from n P xs \<and> closed_from n (P \<union> set (produced_labels xs)) ys)"
  by (induction xs arbitrary: P) (simp_all add: produced_labels_def Un_assoc)

lemma closed_from_mono:
  "closed_from n P xs \<Longrightarrow> P \<subseteq> Q \<Longrightarrow> closed_from n Q xs"
proof (induction xs arbitrary: P Q)
  case Nil
  show ?case by simp
next
  case (Cons x xs)
  from Cons.prems have a: "\<forall>l \<in> set (ins x). raw_input n l \<or> l \<in> Q" by auto
  from Cons.prems have "closed_from n (P \<union> set (outs x)) xs" by simp
  moreover from Cons.prems have "P \<union> set (outs x) \<subseteq> Q \<union> set (outs x)" by auto
  ultimately have "closed_from n (Q \<union> set (outs x)) xs" by (rule Cons.IH)
  with a show ?case by simp
qed

lemma closed_from_concat_map:
  "(\<And>i. i \<in> set xs \<Longrightarrow> closed_from n P (f i)) \<Longrightarrow> closed_from n P (concat (map f xs))"
proof (induction xs)
  case Nil
  show ?case by simp
next
  case (Cons x xs)
  have "closed_from n P (concat (map f xs))" using Cons by simp
  then have "closed_from n (P \<union> set (produced_labels (f x))) (concat (map f xs))"
    by (rule closed_from_mono) simp
  moreover have "closed_from n P (f x)" using Cons.prems by simp
  ultimately show ?case by (simp add: closed_from_append)
qed

lemma closed_clipFilters:
  "i < n \<Longrightarrow> closed_from n P (clipFilters videos probes effs w h ao i)"
  by (simp add: clipFilters_def audioFilter_def silence_def Let_def)

lemma closed_fadeFilters:
  "V i \<in> P \<Longrightarrow> A i \<in> P \<Longrightarrow> closed_from m P (fadeFilters n effs i)"
  by (auto simp: fadeFilters_def)

lemma closed_crossfade:
  "cv \<in> P \<Longrightarrow> ca \<in> P \<Longrightarrow> (\<forall>x \<in> set xs. V x \<in> P \<and> A x \<in> P) \<Longrightarrow>
     closed_from m P
       (snd (snd (snd (foldl (crossfadeStep n effs) (cv, ca, cum, [] :: 'd node list) xs))))"
proof (induction xs arbitrary: cv ca cum P)
  case Nil
  show ?case by simp
next
  case (Cons x xs)
  let ?ov = "if x = n - 1 then Outv else Xv x"
  let ?oa = "if x = n - 1 then Outa else Xa x"
  let ?P = "P \<union> {?ov} \<union> {?oa}"
  have "closed_from m ?P (snd (snd (snd (foldl (crossfadeStep n effs)
      (?ov, ?oa, max 0 (cum - xfadeDuration) + effs ! x, [] :: 'd node list) xs))))"
    by (rule Cons.IH) (use Cons.prems in auto)
  then show ?case
    unfolding foldl_crossfadeStep_Cons using Cons.prems by simp
qed

lemma produced_labels_append [simp]:
  "produced_labels (xs @ ys) = produced_labels xs @ produced_labels ys"
  by (simp add: produced_labels_def)

lemma produced_step1:
  "produced_labels (concat (map (clipFilters videos probes effs w h ao) xs)) =
     concat (map (\<lambda>i. [V i, A i]) xs)"
  by (induction xs) (simp_all add: produced_labels_def clipFilters_def)

lemma produced_fade:
  "produced_labels (concat (map (fadeFilters n effs) xs)) =
     concat (map (\<lambda>i. (if 0 < i then [Vfin i, Afin i] else []) @
                      (if i < n - 1 then [Vfout i, Afout i] else [])) xs)"
  by (induction xs) (simp_all add: produced_labels_def fadeFilters_def)

lemma produced_crossfade:
  "produced_labels (snd (snd (snd (foldl (crossfadeStep n effs) (cv, ca, cum, []) xs)))) =
     concat (map (\<lambda>x. [if x = n - 1 then Outv else Xv x, if x = n - 1 then Outa else Xa x]) xs)"
proof (induction xs arbitrary: cv ca cum)
  case Nil
  show ?case by (simp add: produced_labels_def)
next
  case (Cons x xs)
  show ?case
    unfolding foldl_crossfadeStep_Cons produced_labels_append Cons.IH
    by (simp add: produced_labels_def)
qed

lemma distinct_concat_indexed:
  "distinct xs \<Longrightarrow> (\<And>i. i \<in> set xs \<Longrightarrow> distinct (f i)) \<Longrightarrow>
   (\<And>i j. i \<in> set xs \<Longrightarrow> j \<in> set xs \<Longrightarrow> i \<noteq> j \<Longrightarrow> set (f i) \<inter> set (f j) = {}) \<Longrightarrow>
   distinct (concat (map f xs))"
proof (induction xs)
  case Nil
  show ?case by simp
next
  case (Cons x xs)
  have "distinct (concat (map f xs))" using Cons by simp
  moreover have "distinct (f x)" using Cons.prems by simp
  moreover have "set (f x) \<inter> set (concat (map f xs)) = {}"
  proof -
    have "set (f x) \<inter> set (f j) = {}" if "j \<in> set xs" for j
      using that Cons.prems(1) Cons.prems(3) [of x j] by auto
    then show ?thesis by auto
  qed
  ultimately show ?case by simp
qed

lemma closed_step1:
  "closed_from n P (concat (map (clipFilters videos probes effs w h ao) [0..<n]))"
  by (rule closed_from_concat_map) (simp add: closed_clipFilters)

lemma set_step1_labels:
  "set (concat (map (\<lambda>i. [V i, A i]) [0..<n])) = V ` {0..<n} \<union> A ` {0..<n}"
  by auto

lemma fadedV_produced:
  assumes "j < n"
  shows "fadedV n j \<in> V ` {0..<n} \<union> A ` {0..<n} \<union>
           set (produced_labels (concat (map (fadeFilters n effs) [0..<n]) :: 'd node list))"
    and "fadedA n j \<in> V ` {0..<n} \<union> A ` {0..<n} \<union>
           set (produced_labels (concat (map (fadeFilters n effs) [0..<n]) :: 'd node list))"
  using assms unfolding produced_fade fadedV_def fadedA_def by auto

lemma closed_join:
  "closed_from n (V ` {0..<n} \<union> A ` {0..<n}) (joinFilters n effs tr :: 'd node list)"
proof -
  let ?P = "V ` {0..<n} \<union> A ` {0..<n}"
  consider (fade) "tr = ''fade'' \<and> 1 < n"
    | (xf) "\<not> (tr = ''fade'' \<and> 1 < n)" "tr = ''crossfade'' \<and> 1 < n"
    | (none) "\<not> (tr = ''fade'' \<and> 1 < n)" "\<not> (tr = ''crossfade'' \<and> 1 < n)"
    by blast
  then show ?thesis
  proof cases
    case fade
    have 1: "closed_from n ?P (concat (map (fadeFilters n effs) [0..<n]) :: 'd node list)"
      by (rule closed_from_concat_map) (simp add: closed_fadeFilters)
    have 2: "closed_from n
        (?P \<union> set (produced_labels (concat (map (fadeFilters n effs) [0..<n]) :: 'd node list)))
        [concatFilter n (map (fadedV n) [0..<n]) (map (fadedA n) [0..<n]) :: 'd node]"
      using fadedV_produced [of _ n effs, where ?'d = 'd]
      by (simp add: concatFilter_def concatInput_labels)
    from fade 1 2 show ?thesis
      by (simp add: joinFilters_def closed_from_append)
  next
    case xf
    have "closed_from n ?P (snd (snd (snd (foldl (crossfadeStep n effs)
        (V 0, A 0, effs ! 0, [] :: 'd node list) [1..<n]))))"
      using xf by (intro closed_crossfade) auto
    with xf show ?thesis by (simp add: joinFilters_def)
  next
    case none
    then show ?thesis
      by (auto simp: joinFilters_def concatFilter_def concatInput_labels)
  qed
qed

lemma join_labels:
  assumes "l \<in> set (produced_labels (joinFilters n effs tr :: 'd node list))"
  shows "l = Outv \<or> l = Outa \<or>
         (\<exists>j. l = Vfin j \<or> l = Afin j \<or> l = Vfout j \<or> l = Afout j \<or> l = Xv j \<or> l = Xa j)"
proof -
  from assms have "\<exists>nd \<in> set (joinFilters n effs tr :: 'd node list). l \<in> set (outs nd)"
    by (auto simp: produced_labels_def)
  then obtain nd :: "'d node" where
    nd: "nd \<in> set (joinFilters n effs tr)" "l \<in> set (outs nd)"
    by blast
  from nd(1) have "outs nd \<in> set (map outs (joinFilters n effs tr :: 'd node list))" by simp
  with nd(2) show ?thesis
    unfolding joinFilters_map_outs by (auto split: if_splits)
qed

lemma Outv_produced: "Outv \<in> set (produced_labels (joinFilters n effs tr :: 'd node list))"
proof -
  have "n - 1 \<in> set [1..<n]" if "1 < n"
    using that by simp
  then show ?thesis
    unfolding produced_labels_def joinFilters_map_outs by (auto split: if_splits)
qed

lemma Outa_produced: "Outa \<in> set (produced_labels (joinFilters n effs tr :: 'd node list))"
proof -
  have "n - 1 \<in> set [1..<n]" if "1 < n"
    using that by simp
  then show ?thesis
    unfolding produced_labels_def joinFilters_map_outs by (auto split: if_splits)
qed

lemma distinct_join: "distinct (produced_labels (joinFilters n effs tr :: 'd node list))"
proof -
  consider (fade) "tr = ''fade'' \<and> 1 < n"
    | (xf) "\<not> (tr = ''fade'' \<and> 1 < n)" "tr = ''crossfade'' \<and> 1 < n"
    | (none) "\<not> (tr = ''fade'' \<and> 1 < n)" "\<not> (tr = ''crossfade'' \<and> 1 < n)"
    by blast
  then show ?thesis
  proof cases
    case fade
    have f: "distinct (concat (map (\<lambda>i. (if 0 < i then [Vfin i, Afin i] else []) @
                      (if i < n - 1 then [Vfout i, Afout i] else [])) [0..<n]))"
      by (rule distinct_concat_indexed) auto
    have j: "joinFilters n effs tr = concat (map (fadeFilters n effs) [0..<n]) @
        [concatFilter n (map (fadedV n) [0..<n]) (map (fadedA n) [0..<n]) :: 'd node]"
      using fade by (simp add: joinFilters_def)
    have o: "Outv \<notin> set (produced_labels (concat (map (fadeFilters n effs) [0..<n]) :: 'd node list))"
      "Outa \<notin> set (produced_labels (concat (map (fadeFilters n effs) [0..<n]) :: 'd node list))"
      unfolding produced_fade by auto
    have c: "produced_labels [concatFilter n (map (fadedV n) [0..<n]) (map (fadedA n) [0..<n]) :: 'd node] =
        [Outv, Outa]"
      by (simp add: produced_labels_def)
    show ?thesis
      unfolding j produced_labels_append c using f o by (simp add: produced_fade)
  next
    case xf
    have x: "distinct (concat (map
        (\<lambda>x. [if x = n - 1 then Outv else Xv x, if x = n - 1 then Outa else Xa x]) [1..<n]))"
      by (rule distinct_concat_indexed) auto
    have j: "joinFilters n effs tr = snd (snd (snd (foldl (crossfadeStep n effs)
        (V 0, A 0, effs ! 0, [] :: 'd node list) [1..<n])))"
      using xf by (simp add: joinFilters_def)
    show ?thesis unfolding j produced_crossfade by (rule x)
  next
    case none
    then show ?thesis by (auto simp: joinFilters_def produced_labels_def)
  qed
qed

lemma digit_char:
  assumes "k < 10"
  shows "is_digit (''0123456789'' ! k)" and "digit_val (''0123456789'' ! k) = k"
proof -
  from assms have k: "k = 0 \<or> k = 1 \<or> k = 2 \<or> k = 3 \<or> k = 4 \<or> k = 5 \<or> k = 6 \<or> k = 7 \<or>
      k = 8 \<or> k = 9"
    by arith
  from assms have "''0123456789'' ! k \<in> set ''0123456789''"
    by (intro nth_mem) simp
  then show "is_digit (''0123456789'' ! k)"
    unfolding is_digit_def .
  from k show "digit_val (''0123456789'' ! k) = k"
    by (auto simp: digit_val_def)
qed

lemma digits_of_digits: "digits_of n \<noteq> [] \<and> list_all is_digit (digits_of n)"
proof (induction n rule: digits_of.induct)
  case (1 n)
  show ?case
  proof (cases "n < 10")
    case True
    then show ?thesis by (subst digits_of.simps, subst digits_of.simps) (simp add: digit_char)
  next
    case False
    with 1 show ?thesis
      by (subst digits_of.simps, subst (2) digits_of.simps) (simp add: digit_char)
  qed
qed

lemma digits_val_digits_of: "digits_val (digits_of n) = n"
proof (induction n rule: digits_of.induct)
  case (1 n)
  show ?case
  proof (cases "n < 10")
    case True
    then show ?thesis by (subst digits_of.simps) (simp add: digits_val_def digit_char)
  next
    case False
    with 1 have "digits_val (digits_of (n div 10)) = n div 10" by simp
    with False show ?thesis
      by (subst digits_of.simps) (simp add: digits_val_def digit_char)
  qed
qed

lemma digits_of_inj: "digits_of i = digits_of j \<Longrightarrow> i = j"
  by (metis digits_val_digits_of)

lemma digits_of_hd: "digits_of n = c # cs \<Longrightarrow> is_digit c"
  using digits_of_digits [of n] by simp


lemma digits_of_not_letter [simp]:
  "\<not> is_digit c \<Longrightarrow> digits_of n \<noteq> c # cs"
  "\<not> is_digit c \<Longrightarrow> c # cs \<noteq> digits_of n"
  using digits_of_hd [of n c cs] by auto

lemma digits_of_eq [simp]: "(digits_of i = digits_of j) = (i = j)"
  using digits_of_inj by auto

lemma digits_of_not_Nil [simp]: "digits_of n \<noteq> []" "[] \<noteq> digits_of n"
  using digits_of_digits [of n] by auto

lemma letters_not_digits [simp]:
  "\<not> is_digit CHR ''v''" "\<not> is_digit CHR ''a''" "\<not> is_digit CHR ''f''"
  "\<not> is_digit CHR ''x''" "\<not> is_digit CHR ''o''" "\<not> is_digit CHR ''w''"
  "\<not> is_digit CHR '':''"
  by (simp_all add: is_digit_def)

lemma digits_suffix_eq:
  "(digits_of i @ [c, d] = digits_of j @ [c', d']) = (i = j \<and> c = c' \<and> d = d')"
proof -
  have "(digits_of i @ [c, d] = digits_of j @ [c', d']) =
      ((digits_of i @ [c]) @ [d] = (digits_of j @ [c']) @ [d'])" by simp
  also have "\<dots> = (i = j \<and> c = c' \<and> d = d')"
    unfolding append1_eq_conv by simp
  finally show ?thesis .
qed

lemma digits_suffix_letter:
  "\<not> is_digit c \<Longrightarrow> digits_of i @ xs \<noteq> c # ys"
  "\<not> is_digit c \<Longrightarrow> c # ys \<noteq> digits_of i @ xs"
proof -
  assume c: "\<not> is_digit c"
  obtain e es where e: "digits_of i = e # es" by (cases "digits_of i") auto
  with digits_of_hd have "is_digit e" by blast
  with c e show "digits_of i @ xs \<noteq> c # ys" by auto
  then show "c # ys \<noteq> digits_of i @ xs" by (rule not_sym)
qed

lemma label_text_inj: "label_text a = label_text b \<Longrightarrow> a = b"
  by (cases a; cases b) (simp_all add: digits_suffix_eq digits_suffix_letter)


lemma distinct_label_text: "distinct ls \<Longrightarrow> distinct (map label_text ls)"
  by (auto simp: distinct_map intro: inj_onI label_text_inj)

section \<open>The trim of a clip\<close>

text \<open>
  C2, as stated, fails on the code: the trim of a clip is never rejected. For a clip of
  duration 10 with requested start \<open>"12"\<close> and no requested end, the result is the
  segment from 12 to 10, whose end is not after its start, and the video chain trims to
  it.
\<close>

theorem resolveTrim_inverted_range:
  "resolveTrim (Str ''12'') Null \<lparr>duration = 10, hasAudio = True\<rparr> =
     \<lparr>effStart = 12, effEnd = 10, needTrim = True\<rparr> \<and>
   effEnd (resolveTrim (Str ''12'') Null \<lparr>duration = 10, hasAudio = True\<rparr>)
     \<le> effStart (resolveTrim (Str ''12'') Null \<lparr>duration = 10, hasAudio = True\<rparr>) \<and>
   hd (chain (videoChain (1280 :: nat) 720 0
     (resolveTrim (Str ''12'') Null \<lparr>duration = 10, hasAudio = True\<rparr>))) = Trim 12 10"
  by (simp add: resolveTrim_def sanitizeTrim_def videoChain_def parse_defs)

text \<open>
  C2, amended: a missing, \<open>null\<close>, empty or non-numeric requested start or end counts
  as absent; the start is the requested start or 0 (not clamped at 0), the end is the
  requested end when present and the duration otherwise (not clamped to the duration),
  trimming is needed iff the start is positive or a present end is below the duration,
  and no range is rejected. For duration 10, start \<open>"2"\<close> and end \<open>"20"\<close> give the segment
  from 2 to 20, and start \<open>"12"\<close> without an end gives the segment from 12 to 10. At
  that last input the clip-list compiler trims to the segment from 12 to 10 as well.
\<close>

theorem resolveTrim_unclamped:
  "(sanitizeTrim v = None) =
     (v = Undefined \<or> v = Null \<or> v = Str [] \<or> parseFloat v = None) \<and>
   effStart (resolveTrim s e p) = (case sanitizeTrim s of None \<Rightarrow> 0 | Some x \<Rightarrow> x) \<and>
   effEnd (resolveTrim s e p) = (case sanitizeTrim e of None \<Rightarrow> duration p | Some x \<Rightarrow> x) \<and>
   needTrim (resolveTrim s e p) =
     (0 < effStart (resolveTrim s e p) \<or>
      (\<exists>x. sanitizeTrim e = Some x \<and> x < duration p)) \<and>
   sanitizeTrim (Str ''abc'') = None \<and>
   resolveTrim Null Null \<lparr>duration = 10, hasAudio = b\<rparr> =
     \<lparr>effStart = 0, effEnd = 10, needTrim = False\<rparr> \<and>
   resolveTrim (Str ''2'') (Str ''20'') \<lparr>duration = 10, hasAudio = b\<rparr> =
     \<lparr>effStart = 2, effEnd = 20, needTrim = True\<rparr> \<and>
   resolveTrim (Str ''12'') Null \<lparr>duration = 10, hasAudio = b\<rparr> =
     \<lparr>effStart = 12, effEnd = 10, needTrim = True\<rparr> \<and>
   chain (videoFilter [\<lparr>trimStart = Str ''12'', trimEnd = Null\<rparr>]
            [\<lparr>duration = 10, hasAudio = b\<rparr>] width height 0) =
     [Trim 12 10, Setpts, Scale width height, Pad width height (Some ''black''), Setsar 1]"
proof -
  have 1: "(sanitizeTrim v = None) =
      (v = Undefined \<or> v = Null \<or> v = Str [] \<or> parseFloat v = None)"
    by (simp add: sanitizeTrim_def)
  have 2: "effStart (resolveTrim s e p) = (case sanitizeTrim s of None \<Rightarrow> 0 | Some x \<Rightarrow> x)"
    by (simp add: resolveTrim_def sanitizeTrim_def Let_def or_num_def split: option.splits)
  have 3: "effEnd (resolveTrim s e p) =
      (case sanitizeTrim e of None \<Rightarrow> duration p | Some x \<Rightarrow> x)"
    by (simp add: resolveTrim_def Let_def)
  have 4: "needTrim (resolveTrim s e p) =
      (0 < effStart (resolveTrim s e p) \<or> (\<exists>x. sanitizeTrim e = Some x \<and> x < duration p))"
    by (simp add: resolveTrim_def Let_def split: option.splits)
  have 5: "sanitizeTrim (Str ''abc'') = None"
    by (simp add: sanitizeTrim_def parse_defs)
  have 6: "resolveTrim Null Null \<lparr>duration = 10, hasAudio = b\<rparr> =
      \<lparr>effStart = 0, effEnd = 10, needTrim = False\<rparr>"
    by (simp add: resolveTrim_def sanitizeTrim_def parse_defs)
  have 7: "resolveTrim (Str ''2'') (Str ''20'') \<lparr>duration = 10, hasAudio = b\<rparr> =
      \<lparr>effStart = 2, effEnd = 20, needTrim = True\<rparr>"
    by (simp add: resolveTrim_def sanitizeTrim_def parse_defs)
  have 8: "resolveTrim (Str ''12'') Null \<lparr>duration = 10, hasAudio = b\<rparr> =
      \<lparr>effStart = 12, effEnd = 10, needTrim = True\<rparr>"
    by (simp add: resolveTrim_def sanitizeTrim_def parse_defs)
  have 9: "chain (videoFilter [\<lparr>trimStart = Str ''12'', trimEnd = Null\<rparr>]
            [\<lparr>duration = 10, hasAudio = b\<rparr>] width height 0) =
     [Trim 12 10, Setpts, Scale width height, Pad width height (Some ''black''), Setsar 1]"
    by (simp add: videoFilter_def parse_defs)
  from 1 2 3 4 5 6 7 8 9 show ?thesis by (intro conjI)
qed

theorem resolveTrim_unclamped_witness:
  "effStart (resolveTrim (Str ''-3'') (Str ''0'') \<lparr>duration = 10, hasAudio = True\<rparr>) = -3 \<and>
   effEnd (resolveTrim (Str ''-3'') (Str ''0'') \<lparr>duration = 10, hasAudio = True\<rparr>) = 0 \<and>
   needTrim (resolveTrim (Str ''-3'') (Str ''0'') \<lparr>duration = 10, hasAudio = True\<rparr>)"
  using resolveTrim_unclamped [of "Str ''-3''" "Str ''-3''" "Str ''0''"
      "\<lparr>duration = 10, hasAudio = True\<rparr>" True "1280 :: nat" 720]
  by (simp add: sanitizeTrim_def parse_defs)

section \<open>Watermark escaping\<close>

text \<open>
  C8 fails on the code. Escaping puts one backslash before every quote and every colon
  of the watermark and leaves every other character as it is, a backslash included. So
  the emitted overlay text has an unescaped quote or colon exactly when some quote or
  colon of the watermark stands directly after an odd number of backslashes, and
  escaping is idempotent only on text without quote and colon. The watermark
  backslash-quote, which is the escaped form of one quote, is emitted by all three
  compilers as backslash-backslash-quote: it is changed, and its quote is no longer
  escaped, since the first backslash escapes the second. A watermark without a
  backslash is emitted with every quote and colon escaped.
\<close>

theorem safeText_leaves_unescaped:
  "safeText w = concat (map escape_char w) \<and>
   (has_watermark (Some w) \<longrightarrow>
      last (filterGraph (buildFilterGraph videos probes effs width height audioOption
                           transition (Some w))) =
        \<lparr>ins = [Outv], chain = [Drawtext (safeText w)], outs = [Watermarked]\<rparr> \<and>
      last (filterGraph (mergeVideos width height (Some w) trimStart0 trimEnd0 trimStart1
                           trimEnd1 probe0 probe1)) =
        \<lparr>ins = [Outv], chain = [Drawtext (safeText w)], outs = [Outv2]\<rparr> \<and>
      last (filterGraph (legacyMergeVideos width height audioOption transition (Some w))) =
        \<lparr>ins = [Outv], chain = [Drawtext (safeText w)], outs = [Outv2]\<rparr>) \<and>
   all_escaped False (safeText w) = (\<not> reserved_after_odd_run False w) \<and>
   (backslash \<notin> set w \<longrightarrow> all_escaped False (safeText w)) \<and>
   (safeText (safeText w) = safeText w \<longleftrightarrow> quote \<notin> set w \<and> colon \<notin> set w) \<and>
   all_escaped False [backslash, quote] \<and>
   safeText [backslash, quote] = [backslash, backslash, quote] \<and>
   \<not> all_escaped False [backslash, backslash, quote]"
proof -
  have a: "safeText w = concat (map escape_char w)"
    by (rule safeText_map)
  have b: "has_watermark (Some w) \<longrightarrow>
      last (filterGraph (buildFilterGraph videos probes effs width height audioOption
                           transition (Some w))) =
        \<lparr>ins = [Outv], chain = [Drawtext (safeText w)], outs = [Watermarked]\<rparr> \<and>
      last (filterGraph (mergeVideos width height (Some w) trimStart0 trimEnd0 trimStart1
                           trimEnd1 probe0 probe1)) =
        \<lparr>ins = [Outv], chain = [Drawtext (safeText w)], outs = [Outv2]\<rparr> \<and>
      last (filterGraph (legacyMergeVideos width height audioOption transition (Some w))) =
        \<lparr>ins = [Outv], chain = [Drawtext (safeText w)], outs = [Outv2]\<rparr>"
    by (simp add: buildFilterGraph_eq mergeVideos_def legacyMergeVideos_def Let_def
        drawtext_def)
  have c: "all_escaped False (safeText w) = (\<not> reserved_after_odd_run False w)"
    by (rule all_escaped_safeText)
  have d: "backslash \<notin> set w \<longrightarrow> all_escaped False (safeText w)"
    by (simp add: all_escaped_safeText reserved_after_odd_run_no_backslash)
  have e: "safeText (safeText w) = safeText w \<longleftrightarrow> quote \<notin> set w \<and> colon \<notin> set w"
    by (rule safeText_idem_iff)
  have f: "all_escaped False [backslash, quote]" by simp
  have g: "safeText [backslash, quote] = [backslash, backslash, quote]"
    by (simp add: safeText_def replace_all_def)
  have h: "\<not> all_escaped False [backslash, backslash, quote]" by simp
  from a b c d e f g h show ?thesis by (intro conjI)
qed

theorem safeText_leaves_unescaped_witness:
  "has_watermark (Some [backslash, quote]) \<and>
   last (filterGraph (buildFilterGraph
       [\<lparr>trimStart = Undefined, trimEnd = Undefined\<rparr>,
        \<lparr>trimStart = Undefined, trimEnd = Undefined\<rparr>]
       [\<lparr>duration = 5, hasAudio = True\<rparr>, \<lparr>duration = 4, hasAudio = True\<rparr>] [5, 4]
       (1280 :: nat) 720 ''keepAll'' ''none'' (Some [backslash, quote]))) =
     \<lparr>ins = [Outv], chain = [Drawtext [backslash, backslash, quote]], outs = [Watermarked]\<rparr> \<and>
   reserved_after_odd_run False [backslash, quote] \<and>
   \<not> all_escaped False (safeText [backslash, quote])"
proof -
  have h: "has_watermark (Some [backslash, quote])"
    by (simp add: has_watermark_def jsTrim_def is_ws_def)
  have r: "reserved_after_odd_run False [backslash, quote]" by simp
  note t = safeText_leaves_unescaped [of "[backslash, quote]"
      "[\<lparr>trimStart = Undefined, trimEnd = Undefined\<rparr>,
        \<lparr>trimStart = Undefined, trimEnd = Undefined\<rparr>]"
      "[\<lparr>duration = 5, hasAudio = True\<rparr>, \<lparr>duration = 4, hasAudio = True\<rparr>]" "[5, 4]"
      "1280 :: nat" 720 "''keepAll''" "''none''"
      Null Null Null Null "\<lparr>duration = 5, hasAudio = True\<rparr>" "\<lparr>duration = 4, hasAudio = True\<rparr>"]
  from t h have l: "last (filterGraph (buildFilterGraph
       [\<lparr>trimStart = Undefined, trimEnd = Undefined\<rparr>,
        \<lparr>trimStart = Undefined, trimEnd = Undefined\<rparr>]
       [\<lparr>duration = 5, hasAudio = True\<rparr>, \<lparr>duration = 4, hasAudio = True\<rparr>] [5, 4]
       (1280 :: nat) 720 ''keepAll'' ''none'' (Some [backslash, quote]))) =
     \<lparr>ins = [Outv], chain = [Drawtext (safeText [backslash, quote])], outs = [Watermarked]\<rparr>"
    by blast
  from t have g: "safeText [backslash, quote] = [backslash, backslash, quote]" by blast
  from t r have n: "\<not> all_escaped False (safeText [backslash, quote])" by blast
  from h l [unfolded g] r n show ?thesis by (intro conjI)
qed

section \<open>The overlay stage\<close>

text \<open>
  C9: the overlay stage changes only the final video label. With a watermark the
  graph is the graph without watermark followed by the one overlay filter, which reads
  \<open>outv\<close>, and the final video label is the label the overlay writes; without a watermark
  the graph and the final video label \<open>outv\<close> are unchanged. In both cases the final
  audio label and the filters it depends on are those of the graph without watermark.
  The two-clip compiler does the same with the overlay label \<open>outv2\<close>.
\<close>

theorem overlay_changes_only_video:
  "(has_watermark watermark \<longrightarrow>
      filterGraph (buildFilterGraph videos probes effs width height audioOption transition
                     watermark) =
        filterGraph (buildFilterGraph videos probes effs width height audioOption transition
                       None) @
        [\<lparr>ins = [Outv], chain = [Drawtext (safeText (the watermark))], outs = [Watermarked]\<rparr>] \<and>
      finalVideoLabel (buildFilterGraph videos probes effs width height audioOption
                         transition watermark) = Watermarked) \<and>
   (\<not> has_watermark watermark \<longrightarrow>
      filterGraph (buildFilterGraph videos probes effs width height audioOption transition
                     watermark) =
        filterGraph (buildFilterGraph videos probes effs width height audioOption transition
                       None) \<and>
      finalVideoLabel (buildFilterGraph videos probes effs width height audioOption
                         transition watermark) = Outv) \<and>
   finalVideoLabel (buildFilterGraph videos probes effs width height audioOption transition
                      None) = Outv \<and>
   finalAudioLabel (buildFilterGraph videos probes effs width height audioOption transition
                      watermark) =
     finalAudioLabel (buildFilterGraph videos probes effs width height audioOption
                        transition None) \<and>
   audio_path (buildFilterGraph videos probes effs width height audioOption transition
                 watermark) =
     audio_path (buildFilterGraph videos probes effs width height audioOption transition
                   None) \<and>
   (has_watermark watermark \<longrightarrow>
      filterGraph (mergeVideos width height watermark trimStart0 trimEnd0 trimStart1 trimEnd1
                     probe0 probe1) =
        filterGraph (mergeVideos width height None trimStart0 trimEnd0 trimStart1 trimEnd1
                       probe0 probe1) @
        [\<lparr>ins = [Outv], chain = [Drawtext (safeText (the watermark))], outs = [Outv2]\<rparr>] \<and>
      finalVideoLabel (mergeVideos width height watermark trimStart0 trimEnd0 trimStart1
                         trimEnd1 probe0 probe1) = Outv2) \<and>
   (\<not> has_watermark watermark \<longrightarrow>
      mergeVideos width height watermark trimStart0 trimEnd0 trimStart1 trimEnd1 probe0 probe1 =
        mergeVideos width height None trimStart0 trimEnd0 trimStart1 trimEnd1 probe0 probe1) \<and>
   finalAudioLabel (mergeVideos width height watermark trimStart0 trimEnd0 trimStart1 trimEnd1
                      probe0 probe1) = Outa \<and>
   audio_path (mergeVideos width height watermark trimStart0 trimEnd0 trimStart1 trimEnd1
                 probe0 probe1) =
     audio_path (mergeVideos width height None trimStart0 trimEnd0 trimStart1 trimEnd1
                   probe0 probe1)"
proof -
  have b: "(has_watermark watermark \<longrightarrow>
      filterGraph (buildFilterGraph videos probes effs width height audioOption transition
                     watermark) =
        filterGraph (buildFilterGraph videos probes effs width height audioOption transition
                       None) @
        [\<lparr>ins = [Outv], chain = [Drawtext (safeText (the watermark))], outs = [Watermarked]\<rparr>] \<and>
      finalVideoLabel (buildFilterGraph videos probes effs width height audioOption
                         transition watermark) = Watermarked) \<and>
   (\<not> has_watermark watermark \<longrightarrow>
      filterGraph (buildFilterGraph videos probes effs width height audioOption transition
                     watermark) =
        filterGraph (buildFilterGraph videos probes effs width height audioOption transition
                       None) \<and>
      finalVideoLabel (buildFilterGraph videos probes effs width height audioOption
                         transition watermark) = Outv) \<and>
   finalVideoLabel (buildFilterGraph videos probes effs width height audioOption transition
                      None) = Outv \<and>
   finalAudioLabel (buildFilterGraph videos probes effs width height audioOption transition
                      watermark) =
     finalAudioLabel (buildFilterGraph videos probes effs width height audioOption
                        transition None) \<and>
   audio_path (buildFilterGraph videos probes effs width height audioOption transition
                 watermark) =
     audio_path (buildFilterGraph videos probes effs width height audioOption transition
                   None)"
    by (simp add: buildFilterGraph_eq has_watermark_None finalVideoLabel_def
        finalAudioLabel_def audio_path_def drawtext_def)
  have m: "(has_watermark watermark \<longrightarrow>
      filterGraph (mergeVideos width height watermark trimStart0 trimEnd0 trimStart1 trimEnd1
                     probe0 probe1) =
        filterGraph (mergeVideos width height None trimStart0 trimEnd0 trimStart1 trimEnd1
                       probe0 probe1) @
        [\<lparr>ins = [Outv], chain = [Drawtext (safeText (the watermark))], outs = [Outv2]\<rparr>] \<and>
      finalVideoLabel (mergeVideos width height watermark trimStart0 trimEnd0 trimStart1
                         trimEnd1 probe0 probe1) = Outv2) \<and>
   (\<not> has_watermark watermark \<longrightarrow>
      mergeVideos width height watermark trimStart0 trimEnd0 trimStart1 trimEnd1 probe0 probe1 =
        mergeVideos width height None trimStart0 trimEnd0 trimStart1 trimEnd1 probe0 probe1) \<and>
   finalAudioLabel (mergeVideos width height watermark trimStart0 trimEnd0 trimStart1 trimEnd1
                      probe0 probe1) = Outa \<and>
   audio_path (mergeVideos width height watermark trimStart0 trimEnd0 trimStart1 trimEnd1
                 probe0 probe1) =
     audio_path (mergeVideos width height None trimStart0 trimEnd0 trimStart1 trimEnd1
                   probe0 probe1)"
    by (simp add: mergeVideos_def Let_def has_watermark_None finalVideoLabel_def
        finalAudioLabel_def audio_path_def drawtext_def)
  from b m show ?thesis by (elim conjE) (intro conjI; assumption)
qed

theorem overlay_changes_only_video_witness:
  "has_watermark (Some ''hi'') \<and>
   finalVideoLabel (buildFilterGraph [] [] [] (1280 :: nat) 720 ''keepAll'' ''none''
                      (Some ''hi'')) = Watermarked \<and>
   audio_path (buildFilterGraph [] [] [] (1280 :: nat) 720 ''keepAll'' ''none'' (Some ''hi'')) =
     audio_path (buildFilterGraph [] [] [] (1280 :: nat) 720 ''keepAll'' ''none'' None)"
proof -
  have h: "has_watermark (Some ''hi'')"
    by (simp add: has_watermark_def jsTrim_def is_ws_def)
  show ?thesis
    using h overlay_changes_only_video [of "Some ''hi''" "[]" "[]" "[]" "1280 :: nat" 720
        "''keepAll''" "''none''" Null Null Null Null
        "\<lparr>duration = 1, hasAudio = True\<rparr>" "\<lparr>duration = 1, hasAudio = True\<rparr>"]
    by simp
qed

text \<open>
  C10: a watermark that is empty or consists of white space only adds no overlay
  filter: the compiled graph, with its final labels, is the one compiled without a
  watermark. The same holds for the two-clip compiler and for the legacy helper.
\<close>

theorem blank_watermark_ignored:
  assumes "\<forall>c \<in> set w. is_ws c"
  shows "buildFilterGraph videos probes effs width height audioOption transition (Some w) =
           buildFilterGraph videos probes effs width height audioOption transition None \<and>
         mergeVideos width height (Some w) trimStart0 trimEnd0 trimStart1 trimEnd1 probe0 probe1 =
           mergeVideos width height None trimStart0 trimEnd0 trimStart1 trimEnd1 probe0 probe1 \<and>
         legacyMergeVideos width height audioOption transition (Some w) =
           legacyMergeVideos width height audioOption transition None"
  using has_watermark_blank [OF assms]
  by (simp add: buildFilterGraph_eq mergeVideos_def legacyMergeVideos_def has_watermark_None)

theorem blank_watermark_ignored_witness:
  "list_all is_ws ''  '' \<and>
   buildFilterGraph [] [] [] (1280 :: nat) 720 ''keepAll'' ''none'' (Some ''  '') =
     buildFilterGraph [] [] [] 1280 720 ''keepAll'' ''none'' None"
proof -
  have h: "\<forall>c \<in> set ''  ''. is_ws c" by (simp add: is_ws_def)
  show ?thesis
    using h blank_watermark_ignored [OF h, of "[]" "[]" "[]" "1280 :: nat" 720 "''keepAll''" "''none''"]
    by (simp add: list_all_iff)
qed

section \<open>The joiner on short clip lists\<close>

text \<open>
  C4, as stated, fails on the code: a single clip is not passed through. For one clip
  the graph holds one join filter, a concat with \<open>n=1\<close> reading \<open>[v0][a0]\<close>, and the
  final labels are \<open>outv\<close> and \<open>outa\<close>, not the labels \<open>v0\<close> and \<open>a0\<close> of the clip.
\<close>

theorem single_clip_is_concatenated:
  "filter is_join (filterGraph (buildFilterGraph [\<lparr>trimStart = Undefined, trimEnd = Undefined\<rparr>]
       [\<lparr>duration = 10, hasAudio = True\<rparr>] [10] (1280 :: nat) 720 ''keepAll'' ''none'' None)) =
     [\<lparr>ins = [V 0, A 0], chain = [Concat 1 1 1], outs = [Outv, Outa]\<rparr>] \<and>
   outputs (buildFilterGraph [\<lparr>trimStart = Undefined, trimEnd = Undefined\<rparr>]
       [\<lparr>duration = 10, hasAudio = True\<rparr>] [10] (1280 :: nat) 720 ''keepAll'' ''none'' None) =
     [Outv, Outa] \<and>
   outputs (buildFilterGraph [\<lparr>trimStart = Undefined, trimEnd = Undefined\<rparr>]
       [\<lparr>duration = 10, hasAudio = True\<rparr>] [10] (1280 :: nat) 720 ''keepAll'' ''none'' None) \<noteq>
     [V 0, A 0]"
  by (simp add: buildFilterGraph_eq joinFilters_def clipFilters_def videoFilter_def
      audioFilter_def has_watermark_None concatFilter_def concatInput_def is_join_def)

text \<open>
  C4, amended: the joiner rejects no clip list and has no pass-through. For an empty
  list and for a single clip, under every transition, the graph holds exactly one join
  filter: a concat with \<open>n\<close> the number of clips, reading nothing for no clip and
  \<open>[v0][a0]\<close> for one clip, and writing \<open>outv\<close> and \<open>outa\<close>; the final labels are \<open>outv\<close>
  (the overlay's label when there is a watermark) and \<open>outa\<close>.
\<close>

theorem joiner_short_lists:
  assumes "length videos \<le> 1"
  shows "filter is_join (filterGraph (buildFilterGraph videos probes effs width height
                                         audioOption transition watermark)) =
           [\<lparr>ins = (if length videos = 1 then [V 0, A 0] else []),
             chain = [Concat (length videos) 1 1], outs = [Outv, Outa]\<rparr>] \<and>
         outputs (buildFilterGraph videos probes effs width height audioOption transition
                    watermark) =
           [if has_watermark watermark then Watermarked else Outv, Outa]"
proof -
  have j: "joinFilters (length videos) effs transition =
      [concatFilter (length videos) (map V [0..<length videos]) (map A [0..<length videos])]"
    using assms by (simp add: joinFilters_def)
  have c: "concatFilter (length videos) (map V [0..<length videos]) (map A [0..<length videos]) =
      \<lparr>ins = (if length videos = 1 then [V 0, A 0] else []),
       chain = [Concat (length videos) 1 1], outs = [Outv, Outa]\<rparr>"
  proof (cases "length videos = 1")
    case True
    then show ?thesis by (simp add: concatFilter_def concatInput_def)
  next
    case False
    with assms have "videos = []" by (cases videos) auto
    then show ?thesis by (simp add: concatFilter_def concatInput_def)
  qed
  show ?thesis
    unfolding buildFilterGraph_eq j c
    by (simp add: filter_join_step1 is_join_def drawtext_def)
qed

theorem joiner_short_lists_witness:
  "length ([] :: video list) \<le> 1 \<and>
   filter is_join (filterGraph (buildFilterGraph [] [] [] (1280 :: nat) 720 ''keepAll''
                                  ''crossfade'' None)) =
     [\<lparr>ins = [], chain = [Concat 0 1 1], outs = [Outv, Outa]\<rparr>] \<and>
   outputs (buildFilterGraph [] [] [] (1280 :: nat) 720 ''keepAll'' ''crossfade'' None) =
     [Outv, Outa]"
proof -
  have h: "length ([] :: video list) \<le> 1" by simp
  show ?thesis
    using joiner_short_lists [OF h, of "[]" "[]" "1280 :: nat" 720 "''keepAll''" "''crossfade''" None]
    by (simp add: has_watermark_None)
qed

section \<open>The audio policy\<close>

text \<open>
  C5: for every clip list and every clip index \<open>i\<close>, the one filter that writes the
  audio label of clip \<open>i\<close> is chosen by the audio policy. Under \<open>muteAll\<close> it is the
  silence source whatever the probe says; under \<open>keepFirst\<close> it is the silence source
  for every clip but clip 0, and clip 0 keeps its real audio iff the probe reports
  audio; under \<open>keepAll\<close> the clip gets its real audio iff the probe reports audio and
  the silence source otherwise.
\<close>

theorem audio_policy:
  assumes "i < length videos" and "length probes = length videos"
  shows "producers (A i) (filterGraph (buildFilterGraph videos probes effs (width :: 'd) height
                                        audioOption transition watermark)) =
           [audioFilter videos probes effs audioOption i] \<and>
         (audioOption = ''muteAll'' \<longrightarrow>
            audioFilter videos probes effs audioOption i = (silence effs i :: 'd node)) \<and>
         (audioOption = ''keepFirst'' \<and> 0 < i \<longrightarrow>
            audioFilter videos probes effs audioOption i = (silence effs i :: 'd node)) \<and>
         (audioOption = ''keepFirst'' \<and> i = 0 \<longrightarrow>
            is_real_audio i (audioFilter videos probes effs audioOption i :: 'd node) =
              hasAudio (probes ! i) \<and>
            is_silence (audioFilter videos probes effs audioOption i :: 'd node) =
              (\<not> hasAudio (probes ! i))) \<and>
         (audioOption = ''keepAll'' \<longrightarrow>
            is_real_audio i (audioFilter videos probes effs audioOption i :: 'd node) =
              hasAudio (probes ! i) \<and>
            is_silence (audioFilter videos probes effs audioOption i :: 'd node) =
              (\<not> hasAudio (probes ! i))) \<and>
         is_silence (silence effs i :: 'd node)"
proof -
  have s: "is_silence (silence effs i :: 'd node)"
    by (simp add: is_silence_def silence_def)
  have m: "audioOption = ''muteAll'' \<longrightarrow>
      audioFilter videos probes effs audioOption i = (silence effs i :: 'd node)"
    by (simp add: audioFilter_def)
  have k: "audioOption = ''keepFirst'' \<and> 0 < i \<longrightarrow>
      audioFilter videos probes effs audioOption i = (silence effs i :: 'd node)"
    by (simp add: audioFilter_def)
  from producers_A_graph [OF assms(1), of probes effs width height audioOption transition watermark]
    audioFilter_policy [of audioOption videos probes effs i, where ?'d = 'd] s m k
  show ?thesis by blast
qed

theorem audio_policy_witness:
  "(1 :: nat) < length [\<lparr>trimStart = Undefined, trimEnd = Undefined\<rparr>,
                        \<lparr>trimStart = Undefined, trimEnd = Undefined\<rparr>] \<and>
   producers (A 1) (filterGraph (buildFilterGraph
       [\<lparr>trimStart = Undefined, trimEnd = Undefined\<rparr>,
        \<lparr>trimStart = Undefined, trimEnd = Undefined\<rparr>]
       [\<lparr>duration = 5, hasAudio = True\<rparr>, \<lparr>duration = 4, hasAudio = True\<rparr>] [5, 4]
       (1280 :: nat) 720 ''keepFirst'' ''none'' None)) =
     [\<lparr>ins = [], chain = [Aevalsrc 4], outs = [A 1]\<rparr>]"
proof -
  let ?vs = "[\<lparr>trimStart = Undefined, trimEnd = Undefined\<rparr>,
              \<lparr>trimStart = Undefined, trimEnd = Undefined\<rparr>]"
  let ?ps = "[\<lparr>duration = 5, hasAudio = True\<rparr>, \<lparr>duration = 4, hasAudio = True\<rparr>]"
  have h: "(1 :: nat) < length ?vs" by simp
  have l: "length ?ps = length ?vs" by simp
  note t = audio_policy [OF h l, of "[5, 4]" "1280 :: nat" 720 "''keepFirst''" "''none''" None]
  from t have p: "producers (A 1) (filterGraph (buildFilterGraph ?vs ?ps [5, 4]
       (1280 :: nat) 720 ''keepFirst'' ''none'' None)) =
       [audioFilter ?vs ?ps [5, 4] ''keepFirst'' 1]"
    by (rule conjunct1)
  from t have a: "audioFilter ?vs ?ps [5, 4] ''keepFirst'' 1 = (silence [5, 4] 1 :: nat node)"
    by simp
  show ?thesis unfolding p a by (simp add: silence_def)
qed

section \<open>Normalised streams\<close>

text \<open>
  The two-clip compiler ends every video chain with the same scale, pad, frame rate
  and pixel format, and every audio chain, the silence source included, with
  \<open>AUDIO_NORM\<close>.
\<close>

lemma mergeVideos_normalised:
  "take 4 (filterGraph (mergeVideos w h watermark trimStart0 trimEnd0 trimStart1 trimEnd1
                          probe0 probe1)) =
     [videoChain w h 0 (resolveTrim trimStart0 trimEnd0 probe0),
      audioChain 0 (resolveTrim trimStart0 trimEnd0 probe0) probe0,
      videoChain w h 1 (resolveTrim trimStart1 trimEnd1 probe1),
      audioChain 1 (resolveTrim trimStart1 trimEnd1 probe1) probe1] \<and>
   video_normalised w h (videoChain w h i t) \<and>
   audio_normalised (audioChain i t p :: 'd node)"
  by (simp add: mergeVideos_def Let_def videoChain_def audioChain_def video_normalised_def
      audio_normalised_def ends_with_def AUDIO_NORM_def)

text \<open>
  C1 on the clip-list compiler: for a clip with audio followed by a clip without, the
  chains of \<open>buildFilterGraph\<close> are evaluated. No video chain forces a frame rate or a
  pixel format, the real audio is only trimmed and the silence source stands alone:
  the audio normalisation chain is applied on neither audio path.
\<close>

theorem buildFilterGraph_not_normalised:
  "map chain (filterGraph (buildFilterGraph
       [\<lparr>trimStart = Undefined, trimEnd = Undefined\<rparr>,
        \<lparr>trimStart = Undefined, trimEnd = Undefined\<rparr>]
       [\<lparr>duration = 10, hasAudio = True\<rparr>, \<lparr>duration = 10, hasAudio = False\<rparr>] [10, 10]
       (1280 :: nat) 720 ''keepAll'' ''none'' None)) =
     [ [Trim 0 10, Setpts, Scale 1280 720, Pad 1280 720 (Some ''black''), Setsar 1],
      [Atrim 0 10, Asetpts],
      [Trim 0 10, Setpts, Scale 1280 720, Pad 1280 720 (Some ''black''), Setsar 1],
      [Aevalsrc 10],
      [Concat 2 1 1] ] \<and>
   \<not> video_normalised 1280 720 (videoFilter
       [\<lparr>trimStart = Undefined, trimEnd = Undefined\<rparr>,
        \<lparr>trimStart = Undefined, trimEnd = Undefined\<rparr>]
       [\<lparr>duration = 10, hasAudio = True\<rparr>, \<lparr>duration = 10, hasAudio = False\<rparr>]
       (1280 :: nat) 720 1) \<and>
   \<not> audio_normalised (audioFilter
       [\<lparr>trimStart = Undefined, trimEnd = Undefined\<rparr>,
        \<lparr>trimStart = Undefined, trimEnd = Undefined\<rparr>]
       [\<lparr>duration = 10, hasAudio = True\<rparr>, \<lparr>duration = 10, hasAudio = False\<rparr>] [10, 10]
       ''keepAll'' 1 :: nat node)"
  by (simp add: buildFilterGraph_eq joinFilters_def clipFilters_def videoFilter_def
      audioFilter_def silence_def has_watermark_None concatFilter_def parse_defs
      audio_normalised_def video_normalised_def ends_with_def AUDIO_NORM_def upt_rec)

section \<open>The fade strategy\<close>

text \<open>
  C6, as stated, fails on the code: the fade-out does not always end at the clip's
  effective duration. A clip trimmed from 1 to 1.2 has the effective duration 0.2; its
  fade-out starts at \<open>max(0, 0.2 - 0.5) = 0\<close> and lasts 0.5, so it ends at 0.5.
\<close>

theorem fade_out_overruns_short_clip:
  "effectiveDurations
     [\<lparr>trimStart = Str ''1'', trimEnd = Str ''1.2''\<rparr>, \<lparr>trimStart = Undefined, trimEnd = Undefined\<rparr>]
     [\<lparr>duration = 10, hasAudio = True\<rparr>, \<lparr>duration = 10, hasAudio = True\<rparr>] = [1 / 5, 10] \<and>
   producers (Vfout 0) (filterGraph (buildFilterGraph
     [\<lparr>trimStart = Str ''1'', trimEnd = Str ''1.2''\<rparr>, \<lparr>trimStart = Undefined, trimEnd = Undefined\<rparr>]
     [\<lparr>duration = 10, hasAudio = True\<rparr>, \<lparr>duration = 10, hasAudio = True\<rparr>]
     [1 / 5, 10] (1280 :: nat) 720 ''keepAll'' ''fade'' None)) =
     [\<lparr>ins = [V 0], chain = [Fade Out 0 (1 / 2)], outs = [Vfout 0]\<rparr>] \<and>
   (0 :: real) + 1 / 2 \<noteq> 1 / 5"
proof -
  have e: "effectiveDurations
     [\<lparr>trimStart = Str ''1'', trimEnd = Str ''1.2''\<rparr>, \<lparr>trimStart = Undefined, trimEnd = Undefined\<rparr>]
     [\<lparr>duration = 10, hasAudio = True\<rparr>, \<lparr>duration = 10, hasAudio = True\<rparr>] = [1 / 5, 10]"
    by (simp add: effectiveDurations_def parse_defs upt_rec)
  have p: "producers (Vfout 0) (filterGraph (buildFilterGraph
     [\<lparr>trimStart = Str ''1'', trimEnd = Str ''1.2''\<rparr>, \<lparr>trimStart = Undefined, trimEnd = Undefined\<rparr>]
     [\<lparr>duration = 10, hasAudio = True\<rparr>, \<lparr>duration = 10, hasAudio = True\<rparr>]
     [1 / 5, 10] (1280 :: nat) 720 ''keepAll'' ''fade'' None)) =
     [\<lparr>ins = [V 0], chain = [Fade Out 0 (1 / 2)], outs = [Vfout 0]\<rparr>]"
    by (simp add: buildFilterGraph_eq joinFilters_def clipFilters_def fadeFilters_def
        has_watermark_None fadeDuration_def upt_rec)
  from e p show ?thesis by simp
qed

text \<open>
  C6, amended: under the fade strategy with more than one clip, clip \<open>i\<close> gets a fade-in
  of 0.5 starting at 0, on video and audio, iff \<open>i > 0\<close>, and a fade-out of 0.5 starting
  at \<open>max(0, d - 0.5)\<close> for its effective duration \<open>d\<close>, on video and audio, iff
  \<open>i < n - 1\<close>; the fade-out ends at \<open>d\<close> when \<open>d\<close> is at least 0.5. The one join filter is a
  concat of the last video and audio label of every clip, in clip order, and the total
  duration is the sum of the effective durations.
\<close>

theorem fade_strategy:
  assumes "1 < length videos" and "length effs = length videos" and "i < length videos"
  shows "let n = length videos;
             fg = filterGraph (buildFilterGraph videos probes effs width height audioOption
                                 ''fade'' watermark)
         in producers (Vfin i) fg =
              (if 0 < i then [\<lparr>ins = [V i], chain = [Fade In 0 (1 / 2)], outs = [Vfin i]\<rparr>]
               else []) \<and>
            producers (Afin i) fg =
              (if 0 < i then [\<lparr>ins = [A i], chain = [Afade In 0 (1 / 2)], outs = [Afin i]\<rparr>]
               else []) \<and>
            producers (Vfout i) fg =
              (if i < n - 1 then
                 [\<lparr>ins = [if 0 < i then Vfin i else V i],
                   chain = [Fade Out (max 0 (effs ! i - 1 / 2)) (1 / 2)], outs = [Vfout i]\<rparr>]
               else []) \<and>
            producers (Afout i) fg =
              (if i < n - 1 then
                 [\<lparr>ins = [if 0 < i then Afin i else A i],
                   chain = [Afade Out (max 0 (effs ! i - 1 / 2)) (1 / 2)], outs = [Afout i]\<rparr>]
               else []) \<and>
            (1 / 2 \<le> effs ! i \<longrightarrow> max 0 (effs ! i - 1 / 2) + 1 / 2 = effs ! i) \<and>
            filter is_join fg =
              [\<lparr>ins = concat (map (\<lambda>j. [if j < n - 1 then Vfout j else if 0 < j then Vfin j else V j,
                                          if j < n - 1 then Afout j else if 0 < j then Afin j else A j])
                             [0..<n]),
                chain = [Concat n 1 1], outs = [Outv, Outa]\<rparr>] \<and>
            totalDuration effs = sum_list effs"
proof -
  let ?n = "length videos"
  let ?fg = "filterGraph (buildFilterGraph videos probes effs width height audioOption
                                 ''fade'' watermark)"
  note pf = producers_fade [OF assms(3), of effs, unfolded fadeDuration_def]
  have 1: "producers (Vfin i) ?fg =
      (if 0 < i then [\<lparr>ins = [V i], chain = [Fade In 0 (1 / 2)], outs = [Vfin i]\<rparr>] else [])"
    by (simp add: fade_graph [OF assms(1)] producers_step1_other pf(1))
  have 2: "producers (Afin i) ?fg =
      (if 0 < i then [\<lparr>ins = [A i], chain = [Afade In 0 (1 / 2)], outs = [Afin i]\<rparr>] else [])"
    by (simp add: fade_graph [OF assms(1)] producers_step1_other pf(2))
  have 3: "producers (Vfout i) ?fg =
      (if i < ?n - 1 then
         [\<lparr>ins = [if 0 < i then Vfin i else V i],
           chain = [Fade Out (max 0 (effs ! i - 1 / 2)) (1 / 2)], outs = [Vfout i]\<rparr>]
       else [])"
    by (simp add: fade_graph [OF assms(1)] producers_step1_other pf(3))
  have 4: "producers (Afout i) ?fg =
      (if i < ?n - 1 then
         [\<lparr>ins = [if 0 < i then Afin i else A i],
           chain = [Afade Out (max 0 (effs ! i - 1 / 2)) (1 / 2)], outs = [Afout i]\<rparr>]
       else [])"
    by (simp add: fade_graph [OF assms(1)] producers_step1_other pf(4))
  have 5: "1 / 2 \<le> effs ! i \<longrightarrow> max 0 (effs ! i - 1 / 2) + 1 / 2 = effs ! i"
    by simp
  have 6: "filter is_join ?fg =
      [\<lparr>ins = concat (map (\<lambda>j. [if j < ?n - 1 then Vfout j else if 0 < j then Vfin j else V j,
                                  if j < ?n - 1 then Afout j else if 0 < j then Afin j else A j])
                     [0..<?n]),
        chain = [Concat ?n 1 1], outs = [Outv, Outa]\<rparr>]"
    by (simp add: fade_graph [OF assms(1)] filter_join_step1 not_join_fadeFilters)
       (simp add: concatFilter_def concatInput_labels fadedV_def fadedA_def)
  from 1 2 3 4 5 6 totalDuration_sum [of effs] show ?thesis
    unfolding Let_def by (intro conjI)
qed


theorem fade_strategy_witness:
  "(1 :: nat) < length [\<lparr>trimStart = Undefined, trimEnd = Undefined\<rparr>,
                        \<lparr>trimStart = Undefined, trimEnd = Undefined\<rparr>] \<and>
   producers (Vfin 0) (filterGraph (buildFilterGraph
       [\<lparr>trimStart = Undefined, trimEnd = Undefined\<rparr>,
        \<lparr>trimStart = Undefined, trimEnd = Undefined\<rparr>]
       [\<lparr>duration = 5, hasAudio = True\<rparr>, \<lparr>duration = 4, hasAudio = True\<rparr>] [5, 4]
       (1280 :: nat) 720 ''keepAll'' ''fade'' None)) = [] \<and>
   producers (Vfout 0) (filterGraph (buildFilterGraph
       [\<lparr>trimStart = Undefined, trimEnd = Undefined\<rparr>,
        \<lparr>trimStart = Undefined, trimEnd = Undefined\<rparr>]
       [\<lparr>duration = 5, hasAudio = True\<rparr>, \<lparr>duration = 4, hasAudio = True\<rparr>] [5, 4]
       (1280 :: nat) 720 ''keepAll'' ''fade'' None)) =
     [\<lparr>ins = [V 0], chain = [Fade Out (9 / 2) (1 / 2)], outs = [Vfout 0]\<rparr>] \<and>
   totalDuration [5, 4] = 9"
proof -
  let ?vs = "[\<lparr>trimStart = Undefined, trimEnd = Undefined\<rparr>,
              \<lparr>trimStart = Undefined, trimEnd = Undefined\<rparr>]"
  let ?ps = "[\<lparr>duration = 5, hasAudio = True\<rparr>, \<lparr>duration = 4, hasAudio = True\<rparr>]"
  have h1: "(1 :: nat) < length ?vs" by simp
  have h2: "length [5, 4 :: real] = length ?vs" by simp
  have h3: "(0 :: nat) < length ?vs" by simp
  note t = fade_strategy [OF h1 h2 h3, of ?ps "1280 :: nat" 720 "''keepAll''" None,
      unfolded Let_def]
  from t have a: "producers (Vfin 0) (filterGraph (buildFilterGraph ?vs ?ps [5, 4]
       (1280 :: nat) 720 ''keepAll'' ''fade'' None)) = []"
    by simp
  from t have b: "producers (Vfout 0) (filterGraph (buildFilterGraph ?vs ?ps [5, 4]
       (1280 :: nat) 720 ''keepAll'' ''fade'' None)) =
     [\<lparr>ins = [V 0], chain = [Fade Out (9 / 2) (1 / 2)], outs = [Vfout 0]\<rparr>]"
    by simp
  from t have c: "totalDuration [5, 4] = 9" by simp
  from h1 a b c show ?thesis by (intro conjI)
qed

section \<open>The crossfade strategy\<close>

text \<open>
  C3, as stated, fails on the code in two places, shown here for two untrimmed clips of
  5 and 4 seconds. The specified step anchors the video blend and the audio crossfade
  at the offset 4. The code anchors the video blend there, but its audio crossfade is
  \<open>acrossfade=d=1\<close>, which carries no offset. And the total nominal duration 8 is the
  cumulative offset after the last step, a local variable of the loop that is not
  returned; the total duration the program computes is the sum of the effective
  durations, 9.
\<close>

theorem crossfade_audio_not_anchored:
  "effectiveDurations
     [\<lparr>trimStart = Undefined, trimEnd = Undefined\<rparr>,
      \<lparr>trimStart = Undefined, trimEnd = Undefined\<rparr>]
     [\<lparr>duration = 5, hasAudio = True\<rparr>, \<lparr>duration = 4, hasAudio = True\<rparr>] = [5, 4] \<and>
   specCrossfade 1 [5, 4] = (8, [\<lparr>clip = 1, videoAnchor = 4, audioAnchor = 4\<rparr>]) \<and>
   filter is_join (filterGraph (buildFilterGraph
       [\<lparr>trimStart = Undefined, trimEnd = Undefined\<rparr>,
        \<lparr>trimStart = Undefined, trimEnd = Undefined\<rparr>]
       [\<lparr>duration = 5, hasAudio = True\<rparr>, \<lparr>duration = 4, hasAudio = True\<rparr>] [5, 4]
       (1280 :: nat) 720 ''keepAll'' ''crossfade'' None)) =
     [\<lparr>ins = [V 0, V 1], chain = [Xfade 1 4], outs = [Outv]\<rparr>,
      \<lparr>ins = [A 0, A 1], chain = [Acrossfade 1], outs = [Outa]\<rparr>] \<and>
   anchor (\<lparr>ins = [V 0, V 1], chain = [Xfade 1 4], outs = [Outv]\<rparr> :: nat node) = Some 4 \<and>
   anchor (\<lparr>ins = [A 0, A 1], chain = [Acrossfade 1], outs = [Outa]\<rparr> :: nat node) = None \<and>
   totalDuration (effectiveDurations
     [\<lparr>trimStart = Undefined, trimEnd = Undefined\<rparr>,
      \<lparr>trimStart = Undefined, trimEnd = Undefined\<rparr>]
     [\<lparr>duration = 5, hasAudio = True\<rparr>, \<lparr>duration = 4, hasAudio = True\<rparr>]) = 9"
proof -
  let ?vs = "[\<lparr>trimStart = Undefined, trimEnd = Undefined\<rparr>,
              \<lparr>trimStart = Undefined, trimEnd = Undefined\<rparr>]"
  let ?ps = "[\<lparr>duration = 5, hasAudio = True\<rparr>, \<lparr>duration = 4, hasAudio = True\<rparr>]"
  have e: "effectiveDurations ?vs ?ps = [5, 4]"
    by (simp add: effectiveDurations_def or_num_def upt_rec)
  have s: "specCrossfade 1 [5, 4] = (8, [\<lparr>clip = 1, videoAnchor = 4, audioAnchor = 4\<rparr>])"
    by (simp add: specCrossfade_def specCrossfadeStep_def upt_rec)
  have j: "filter is_join (filterGraph (buildFilterGraph ?vs ?ps [5, 4]
       (1280 :: nat) 720 ''keepAll'' ''crossfade'' None)) =
     [\<lparr>ins = [V 0, V 1], chain = [Xfade 1 4], outs = [Outv]\<rparr>,
      \<lparr>ins = [A 0, A 1], chain = [Acrossfade 1], outs = [Outa]\<rparr>]"
    by (simp add: crossfade_graph not_join_clipFilters has_watermark_None st_filters_def
        crossfadeStep_eq xfadeDuration_def xnode_simps upt_rec)
  have a: "anchor (\<lparr>ins = [V 0, V 1], chain = [Xfade 1 4], outs = [Outv]\<rparr> :: nat node) = Some 4"
    by (simp add: anchor_simps)
  have b: "anchor (\<lparr>ins = [A 0, A 1], chain = [Acrossfade 1], outs = [Outa]\<rparr> :: nat node) = None"
    by (simp add: anchor_simps)
  have t: "totalDuration (effectiveDurations ?vs ?ps) = 9"
    unfolding e by (simp add: totalDuration_def)
  from e s j a b t show ?thesis by (intro conjI)
qed

text \<open>
  C3, amended: for more than one clip the crossfade loop is a left fold over the clips 1
  to \<open>n - 1\<close>, started with the labels of clip 0 and its effective duration as cumulative
  offset. Each step appends exactly one video blend, anchored at the offset
  \<open>max(0, cumulativeOffset - 1)\<close>, and one audio crossfade of duration 1 that carries no
  offset, so it is the same filter whatever the cumulative offset is; the step sets the
  cumulative offset to the offset plus the effective duration of the clip. The blends
  and crossfades are the only join filters, \<open>n - 1\<close> of each, and the last step writes
  \<open>outv\<close> and \<open>outa\<close>. The cumulative offsets and the anchors of the video blends are those
  of the specified fold; the anchors of the audio crossfades are not. When no offset is
  clamped, the final cumulative offset is the sum of the effective durations minus
  \<open>(n - 1)\<close> times the crossfade duration; it is not part of the result, and the total
  duration of the program is the plain sum of the effective durations. For the effective
  durations 5 and 4 there is one blend, at offset 4, the final cumulative offset is 8
  and the total duration of the program is 9.
\<close>

theorem crossfade_left_fold:
  assumes "1 < length videos" and "length effs = length videos"
  shows
    "let n = length videos;
         final = foldl (crossfadeStep n effs) (V 0, A 0, effs ! 0, []) [1..<n];
         spec = specCrossfade xfadeDuration effs;
         g = buildFilterGraph videos probes effs (width :: 'd) height audioOption
               ''crossfade'' watermark
     in crossfadeLoop n effs 1 (V 0, A 0, effs ! 0, []) = final \<and>
        filter is_join (filterGraph g) = st_filters final \<and>
        length (filter is_blend (filterGraph g)) = n - 1 \<and>
        length (filter is_acrossfade (filterGraph g)) = n - 1 \<and>
        st_video final = Outv \<and> st_audio final = Outa \<and>
        ((\<forall>j. 1 \<le> j \<and> j < n \<longrightarrow> real j * xfadeDuration \<le> sum_list (take j effs)) \<longrightarrow>
           st_offset final = sum_list effs - real (n - 1) * xfadeDuration) \<and>
        crossfadeStep n effs (cv, ca, cum, nodes :: 'd node list) i =
          (if i = n - 1 then Outv else Xv i, if i = n - 1 then Outa else Xa i,
           max 0 (cum - 1) + effs ! i,
           nodes @ [\<lparr>ins = [cv, V i], chain = [Xfade 1 (max 0 (cum - 1))],
                     outs = [if i = n - 1 then Outv else Xv i]\<rparr>,
                    \<lparr>ins = [ca, A i], chain = [Acrossfade 1],
                     outs = [if i = n - 1 then Outa else Xa i]\<rparr>]) \<and>
        st_offset final = fst spec \<and>
        map clip (snd spec) = [1..<n] \<and>
        map anchor (filter is_blend (filterGraph g)) =
          map (\<lambda>b. Some (videoAnchor b)) (snd spec) \<and>
        filter is_acrossfade (filterGraph g) =
          map (\<lambda>j. \<lparr>ins = [if j = 1 then A 0 else Xa (j - 1), A j], chain = [Acrossfade 1],
                     outs = [if j = n - 1 then Outa else Xa j]\<rparr>) [1..<n] \<and>
        map anchor (filter is_acrossfade (filterGraph g)) = replicate (n - 1) None \<and>
        map anchor (filter is_acrossfade (filterGraph g)) \<noteq>
          map (\<lambda>b. Some (audioAnchor b)) (snd spec) \<and>
        totalDuration effs = sum_list effs \<and>
        filter is_blend (filterGraph (buildFilterGraph
            [\<lparr>trimStart = Undefined, trimEnd = Undefined\<rparr>,
             \<lparr>trimStart = Undefined, trimEnd = Undefined\<rparr>]
            [\<lparr>duration = 5, hasAudio = True\<rparr>, \<lparr>duration = 4, hasAudio = True\<rparr>] [5, 4]
            width height audioOption ''crossfade'' None)) =
          [\<lparr>ins = [V 0, V 1], chain = [Xfade 1 4], outs = [Outv]\<rparr>] \<and>
        st_offset (crossfadeLoop 2 [5, 4] 1 (V 0, A 0, 5, [] :: 'd node list)) = 8 \<and>
        totalDuration [5, 4] = 9"
proof -
  let ?n = "length videos"
  let ?final = "foldl (crossfadeStep ?n effs) (V 0, A 0, effs ! 0, [] :: 'd node list) [1..<?n]"
  let ?spec = "specCrossfade xfadeDuration effs"
  let ?g = "buildFilterGraph videos probes effs width height audioOption ''crossfade'' watermark"
  have 1: "crossfadeLoop ?n effs 1 (V 0, A 0, effs ! 0, []) = ?final"
    by (rule crossfadeLoop_foldl)
  have 2: "filter is_join (filterGraph ?g) = st_filters ?final"
    by (simp add: crossfade_graph [OF assms(1)] filter_join_step1)
       (simp add: st_filters_def crossfade_all_join)
  have fb: "filter is_blend (filterGraph ?g) = filter is_blend (st_filters ?final)"
    by (simp add: crossfade_graph [OF assms(1)] not_blend_step1)
  have fa: "filter is_acrossfade (filterGraph ?g) = filter is_acrossfade (st_filters ?final)"
    by (simp add: crossfade_graph [OF assms(1)] not_blend_step1)
  have 3: "length (filter is_blend (filterGraph ?g)) = ?n - 1"
    by (simp add: fb st_filters_def crossfade_counts)
  have 4: "length (filter is_acrossfade (filterGraph ?g)) = ?n - 1"
    by (simp add: fa st_filters_def crossfade_counts)
  have 5: "st_video ?final = Outv \<and> st_audio ?final = Outa"
    using crossfade_final_labels [OF assms(1), of effs "(V 0, A 0, effs ! 0, [] :: 'd node list)"]
    by (simp add: st_video_def st_audio_def)
  have t1: "take 1 effs = [effs ! 0]"
    using assms by (cases effs) auto
  have 6: "(\<forall>j. 1 \<le> j \<and> j < ?n \<longrightarrow> real j * xfadeDuration \<le> sum_list (take j effs)) \<longrightarrow>
      st_offset ?final = sum_list effs - real (?n - 1) * xfadeDuration"
  proof
    assume a: "\<forall>j. 1 \<le> j \<and> j < ?n \<longrightarrow> real j * xfadeDuration \<le> sum_list (take j effs)"
    have c: "effs ! 0 = sum_list (take 1 effs) - real (1 - 1) * xfadeDuration"
      unfolding t1 by simp
    show "st_offset ?final = sum_list effs - real (?n - 1) * xfadeDuration"
      unfolding st_offset_def
      using assms(1) a by (intro crossfade_cum [OF assms(2) _ _ c]) simp_all
  qed
  have 7: "crossfadeStep ?n effs (cv, ca, cum, nodes) i =
          (if i = ?n - 1 then Outv else Xv i, if i = ?n - 1 then Outa else Xa i,
           max 0 (cum - 1) + effs ! i,
           nodes @ [\<lparr>ins = [cv, V i], chain = [Xfade 1 (max 0 (cum - 1))],
                     outs = [if i = ?n - 1 then Outv else Xv i]\<rparr>,
                    \<lparr>ins = [ca, A i], chain = [Acrossfade 1],
                     outs = [if i = ?n - 1 then Outa else Xa i]\<rparr>])"
    by (simp add: crossfadeStep_eq xfadeDuration_def)
  have p0: "map anchor (filter is_blend ([] :: 'd node list)) =
      map (\<lambda>b. Some (videoAnchor b)) ([] :: blendpair list)"
    by simp
  note r = crossfade_refines_spec [OF p0, of ?n effs "V 0" "A 0" "effs ! 0" "[1..<?n]"]
  have sp: "?spec = foldl (specCrossfadeStep xfadeDuration effs) (effs ! 0, []) [1..<?n]"
    by (simp add: specCrossfade_def assms(2))
  have 8: "st_offset ?final = fst ?spec"
    unfolding sp st_offset_def using r by (rule conjunct1)
  have q0: "map audioAnchor ([] :: blendpair list) = map videoAnchor ([] :: blendpair list) \<and>
      map clip ([] :: blendpair list) = []"
    by simp
  note q = spec_anchors [OF q0, of xfadeDuration effs "effs ! 0" "[1..<?n]"]
  have 9: "map clip (snd ?spec) = [1..<?n]"
    unfolding sp using q by simp
  have 10: "map anchor (filter is_blend (filterGraph ?g)) =
      map (\<lambda>b. Some (videoAnchor b)) (snd ?spec)"
    unfolding sp fb st_filters_def using r by (rule conjunct2)
  have 11: "filter is_acrossfade (filterGraph ?g) =
      map (\<lambda>j. \<lparr>ins = [if j = 1 then A 0 else Xa (j - 1), A j], chain = [Acrossfade 1],
                 outs = [if j = ?n - 1 then Outa else Xa j]\<rparr>) [1..<?n]"
    unfolding fa st_filters_def crossfade_audio_nodes by (simp add: xfadeDuration_def)
  have 12: "map anchor (filter is_acrossfade (filterGraph ?g)) = replicate (?n - 1) None"
    unfolding 11 by (simp add: anchor_simps comp_def map_replicate_const)
  have ls: "length (snd ?spec) = ?n - 1"
    using arg_cong [OF 9, of length] by simp
  have 13: "map anchor (filter is_acrossfade (filterGraph ?g)) \<noteq>
      map (\<lambda>b. Some (audioAnchor b)) (snd ?spec)"
  proof
    assume "map anchor (filter is_acrossfade (filterGraph ?g)) =
      map (\<lambda>b. Some (audioAnchor b)) (snd ?spec)"
    then have eq: "replicate (?n - 1) None = map (\<lambda>b. Some (audioAnchor b)) (snd ?spec)"
      unfolding 12 .
    from assms(1) ls obtain b bs where "snd ?spec = b # bs"
      by (cases "snd ?spec") auto
    with eq assms(1) show False by (cases "?n - 1") auto
  qed
  have 14: "totalDuration effs = sum_list effs"
    by (rule totalDuration_sum)
  have 15: "filter is_blend (filterGraph (buildFilterGraph
            [\<lparr>trimStart = Undefined, trimEnd = Undefined\<rparr>,
             \<lparr>trimStart = Undefined, trimEnd = Undefined\<rparr>]
            [\<lparr>duration = 5, hasAudio = True\<rparr>, \<lparr>duration = 4, hasAudio = True\<rparr>] [5, 4]
            width height audioOption ''crossfade'' None)) =
          [\<lparr>ins = [V 0, V 1], chain = [Xfade 1 4], outs = [Outv]\<rparr>]"
    by (simp add: crossfade_graph not_blend_clipFilters has_watermark_None st_filters_def
        crossfadeStep_eq xfadeDuration_def xnode_simps)
  have 16: "st_offset (crossfadeLoop 2 [5, 4] 1 (V 0, A 0, 5, [] :: 'd node list)) = 8"
    by (simp add: crossfadeLoop_foldl crossfadeStep_eq xfadeDuration_def st_offset_def upt_rec)
  have 17: "totalDuration [5, 4] = 9"
    by (simp add: totalDuration_def)
  from 1 2 3 4 5 6 7 8 9 10 11 12 13 14 15 16 17 show ?thesis
    unfolding Let_def by (intro conjI) simp_all
qed

theorem crossfade_left_fold_witness:
  "(1 :: nat) < length [\<lparr>trimStart = Undefined, trimEnd = Undefined\<rparr>,
                        \<lparr>trimStart = Undefined, trimEnd = Undefined\<rparr>,
                        \<lparr>trimStart = Undefined, trimEnd = Undefined\<rparr>] \<and>
   length [5, 4, 3 :: real] = length [\<lparr>trimStart = Undefined, trimEnd = Undefined\<rparr>,
                        \<lparr>trimStart = Undefined, trimEnd = Undefined\<rparr>,
                        \<lparr>trimStart = Undefined, trimEnd = Undefined\<rparr>] \<and>
   real 1 * xfadeDuration \<le> sum_list (take 1 [5, 4, 3]) \<and>
   real 2 * xfadeDuration \<le> sum_list (take 2 [5, 4, 3]) \<and>
   st_offset (foldl (crossfadeStep 3 [5, 4, 3]) (V 0, A 0, 5, [] :: nat node list) [1..<3]) = 10 \<and>
   length (filter is_blend (filterGraph (buildFilterGraph
       [\<lparr>trimStart = Undefined, trimEnd = Undefined\<rparr>,
        \<lparr>trimStart = Undefined, trimEnd = Undefined\<rparr>,
        \<lparr>trimStart = Undefined, trimEnd = Undefined\<rparr>]
       [\<lparr>duration = 5, hasAudio = True\<rparr>, \<lparr>duration = 4, hasAudio = True\<rparr>,
        \<lparr>duration = 3, hasAudio = True\<rparr>] [5, 4, 3]
       (1280 :: nat) 720 ''keepAll'' ''crossfade'' None))) = 2 \<and>
   map anchor (filter is_blend (filterGraph (buildFilterGraph
       [\<lparr>trimStart = Undefined, trimEnd = Undefined\<rparr>,
        \<lparr>trimStart = Undefined, trimEnd = Undefined\<rparr>,
        \<lparr>trimStart = Undefined, trimEnd = Undefined\<rparr>]
       [\<lparr>duration = 5, hasAudio = True\<rparr>, \<lparr>duration = 4, hasAudio = True\<rparr>,
        \<lparr>duration = 3, hasAudio = True\<rparr>] [5, 4, 3]
       (1280 :: nat) 720 ''keepAll'' ''crossfade'' None))) = [Some 4, Some 7] \<and>
   map anchor (filter is_acrossfade (filterGraph (buildFilterGraph
       [\<lparr>trimStart = Undefined, trimEnd = Undefined\<rparr>,
        \<lparr>trimStart = Undefined, trimEnd = Undefined\<rparr>,
        \<lparr>trimStart = Undefined, trimEnd = Undefined\<rparr>]
       [\<lparr>duration = 5, hasAudio = True\<rparr>, \<lparr>duration = 4, hasAudio = True\<rparr>,
        \<lparr>duration = 3, hasAudio = True\<rparr>] [5, 4, 3]
       (1280 :: nat) 720 ''keepAll'' ''crossfade'' None))) = [None, None]"
proof -
  let ?vs = "[\<lparr>trimStart = Undefined, trimEnd = Undefined\<rparr>,
              \<lparr>trimStart = Undefined, trimEnd = Undefined\<rparr>,
              \<lparr>trimStart = Undefined, trimEnd = Undefined\<rparr>]"
  let ?ps = "[\<lparr>duration = 5, hasAudio = True\<rparr>, \<lparr>duration = 4, hasAudio = True\<rparr>,
              \<lparr>duration = 3, hasAudio = True\<rparr>]"
  let ?g = "buildFilterGraph ?vs ?ps [5, 4, 3] (1280 :: nat) 720 ''keepAll'' ''crossfade'' None"
  have h1: "(1 :: nat) < length ?vs" by simp
  have h2: "length [5, 4, 3 :: real] = length ?vs" by simp
  have a1: "real 1 * xfadeDuration \<le> sum_list (take 1 [5, 4, 3])"
    by (simp add: xfadeDuration_def)
  have a2: "real 2 * xfadeDuration \<le> sum_list (take 2 [5, 4, 3])"
    by (simp add: xfadeDuration_def take_Suc_conv_app_nth numeral_2_eq_2)
  have nc: "\<forall>j. 1 \<le> j \<and> j < length ?vs \<longrightarrow>
      real j * xfadeDuration \<le> sum_list (take j [5, 4, 3])"
  proof (intro allI impI)
    fix j :: nat assume "1 \<le> j \<and> j < length ?vs"
    then have "j = 1 \<or> j = 2" by auto
    with a1 a2 show "real j * xfadeDuration \<le> sum_list (take j [5, 4, 3])" by auto
  qed
  note t = crossfade_left_fold [OF h1 h2, of ?ps "1280 :: nat" 720 "''keepAll''" None,
      unfolded Let_def]
  from t nc have o: "st_offset (foldl (crossfadeStep (length ?vs) [5, 4, 3])
      (V 0, A 0, [5, 4, 3] ! 0, [] :: nat node list) [1..<length ?vs]) =
      sum_list [5, 4, 3] - real (length ?vs - 1) * xfadeDuration"
    by blast
  from t have b: "length (filter is_blend (filterGraph ?g)) = length ?vs - 1"
    by blast
  from t have va: "map anchor (filter is_blend (filterGraph ?g)) =
      map (\<lambda>b. Some (videoAnchor b)) (snd (specCrossfade xfadeDuration [5, 4, 3]))"
    by blast
  from t have aa: "map anchor (filter is_acrossfade (filterGraph ?g)) =
      replicate (length ?vs - 1) None"
    by blast
  have sp: "snd (specCrossfade xfadeDuration [5, 4, 3]) =
      [\<lparr>clip = 1, videoAnchor = 4, audioAnchor = 4\<rparr>, \<lparr>clip = 2, videoAnchor = 7, audioAnchor = 7\<rparr>]"
    by (simp add: specCrossfade_def specCrossfadeStep_def xfadeDuration_def upt_rec)
  have l3: "length ?vs = 3" by simp
  from o [unfolded l3] have o': "st_offset (foldl (crossfadeStep 3 [5, 4, 3])
      (V 0, A 0, 5, [] :: nat node list) [1..<3]) = 10"
    by (simp add: xfadeDuration_def)
  from b have b': "length (filter is_blend (filterGraph ?g)) = 2"
    by simp
  from va have va': "map anchor (filter is_blend (filterGraph ?g)) = [Some 4, Some 7]"
    unfolding sp by simp
  from aa have aa': "map anchor (filter is_acrossfade (filterGraph ?g)) = [None, None]"
    by (simp add: numeral_2_eq_2)
  from h1 h2 a1 a2 o' b' va' aa' show ?thesis by (intro conjI)
qed

section \<open>The assembled graph\<close>

text \<open>
  C7: for every input the compiled graph is a closed program in topological order.
  Every label a filter reads is a raw stream of one of the input clips or is written by
  a filter that stands before it in the list, every label is written by one filter only
  (also as text, since different labels have different texts), and the final labels are
  written in the graph.
\<close>

theorem graph_closed_and_labels_unique:
  "closed_from (length videos) {}
     (filterGraph (buildFilterGraph videos probes effs width height audioOption transition
                     watermark)) \<and>
   distinct (produced_labels
     (filterGraph (buildFilterGraph videos probes effs width height audioOption transition
                     watermark))) \<and>
   distinct (map label_text (produced_labels
     (filterGraph (buildFilterGraph videos probes effs width height audioOption transition
                     watermark)))) \<and>
   set (outputs (buildFilterGraph videos probes effs width height audioOption transition
                   watermark)) \<subseteq>
     set (produced_labels
       (filterGraph (buildFilterGraph videos probes effs width height audioOption transition
                       watermark)))"
proof -
  let ?n = "length videos"
  let ?s1 = "concat (map (clipFilters videos probes effs width height audioOption) [0..<?n])"
  let ?j = "joinFilters ?n effs transition :: 'a node list"
  let ?w = "if has_watermark watermark then [drawtext Outv (the watermark) Watermarked :: 'a node]
            else []"
  have p1: "set (produced_labels ?s1) = V ` {0..<?n} \<union> A ` {0..<?n}"
    unfolding produced_step1 by (rule set_step1_labels)
  have c1: "closed_from ?n {} ?s1" by (rule closed_step1)
  have c2: "closed_from ?n ({} \<union> set (produced_labels ?s1)) ?j"
    unfolding p1 using closed_join [of ?n effs transition, where ?'d = 'a] by simp
  have c3: "closed_from ?n ({} \<union> set (produced_labels ?s1) \<union> set (produced_labels ?j)) ?w"
    using Outv_produced [of ?n effs transition, where ?'d = 'a] by (simp add: drawtext_def)
  have closed: "closed_from ?n {} (?s1 @ ?j @ ?w)"
    using c1 c2 c3 by (simp only: closed_from_append)
  have d1: "distinct (produced_labels ?s1)"
    unfolding produced_step1 by (rule distinct_concat_indexed) auto
  have d2: "distinct (produced_labels ?j)" by (rule distinct_join)
  have d3: "distinct (produced_labels ?w)" by (simp add: produced_labels_def)
  have i12: "set (produced_labels ?s1) \<inter> set (produced_labels ?j) = {}"
    unfolding p1 using join_labels [of _ ?n effs transition, where ?'d = 'a] by fastforce
  have i13: "set (produced_labels ?s1) \<inter> set (produced_labels ?w) = {}"
    unfolding p1 by (auto simp: produced_labels_def)
  have i23: "set (produced_labels ?j) \<inter> set (produced_labels ?w) = {}"
    using join_labels [of Watermarked ?n effs transition, where ?'d = 'a]
    by (auto simp: produced_labels_def)
  have dist: "distinct (produced_labels (?s1 @ ?j @ ?w))"
    using d1 d2 d3 i12 i13 i23
    by (simp only: produced_labels_append distinct_append set_append) blast
  have fin: "set [if has_watermark watermark then Watermarked else Outv, Outa] \<subseteq>
      set (produced_labels (?s1 @ ?j @ ?w))"
    using Outv_produced [of ?n effs transition, where ?'d = 'a]
      Outa_produced [of ?n effs transition, where ?'d = 'a]
    by (simp add: produced_labels_def [of "[_]"])
  from closed dist distinct_label_text [OF dist] fin show ?thesis
    by (simp only: buildFilterGraph_eq graph.simps)
qed


theorem graph_closed_and_labels_unique_witness:
  "closed_from 3 {} (filterGraph (buildFilterGraph
       [\<lparr>trimStart = Undefined, trimEnd = Undefined\<rparr>,
        \<lparr>trimStart = Undefined, trimEnd = Undefined\<rparr>,
        \<lparr>trimStart = Undefined, trimEnd = Undefined\<rparr>]
       [\<lparr>duration = 5, hasAudio = True\<rparr>, \<lparr>duration = 4, hasAudio = False\<rparr>,
        \<lparr>duration = 3, hasAudio = True\<rparr>] [5, 4, 3]
       (1280 :: nat) 720 ''keepAll'' ''crossfade'' (Some ''hi''))) \<and>
   distinct (produced_labels (filterGraph (buildFilterGraph
       [\<lparr>trimStart = Undefined, trimEnd = Undefined\<rparr>,
        \<lparr>trimStart = Undefined, trimEnd = Undefined\<rparr>,
        \<lparr>trimStart = Undefined, trimEnd = Undefined\<rparr>]
       [\<lparr>duration = 5, hasAudio = True\<rparr>, \<lparr>duration = 4, hasAudio = False\<rparr>,
        \<lparr>duration = 3, hasAudio = True\<rparr>] [5, 4, 3]
       (1280 :: nat) 720 ''keepAll'' ''crossfade'' (Some ''hi''))))"
proof -
  let ?vs = "[\<lparr>trimStart = Undefined, trimEnd = Undefined\<rparr>,
              \<lparr>trimStart = Undefined, trimEnd = Undefined\<rparr>,
              \<lparr>trimStart = Undefined, trimEnd = Undefined\<rparr>]"
  have l: "length ?vs = 3" by simp
  from graph_closed_and_labels_unique [of ?vs
      "[\<lparr>duration = 5, hasAudio = True\<rparr>, \<lparr>duration = 4, hasAudio = False\<rparr>,
        \<lparr>duration = 3, hasAudio = True\<rparr>]" "[5, 4, 3]" "1280 :: nat" 720 "''keepAll''"
      "''crossfade''" "Some ''hi''", unfolded l]
  show ?thesis by blast
qed

section \<open>The legacy helper beside the clip-list compiler\<close>

text \<open>
  The legacy helper has no silence path and no fade on audio: \<open>muteAll\<close> leaves the
  graph without any audio filter, \<open>keepFirst\<close> resamples the audio of clip 0 alone, and
  the fade transition fades clip 0 out from time 0 on, whatever its duration.
\<close>

lemma legacy_audio_and_fade:
  "filter (\<lambda>nd. Outa \<in> set (outs nd))
     (filterGraph (legacyMergeVideos w h ''muteAll'' transition watermark)) = [] \<and>
   outputs (legacyMergeVideos w h ''muteAll'' transition None) = [Outv] \<and>
   filter (\<lambda>nd. Outa \<in> set (outs nd))
     (filterGraph (legacyMergeVideos w h ''keepFirst'' transition watermark)) =
     [\<lparr>ins = [SrcA 0], chain = [Aresample 44100], outs = [Outa]\<rparr>] \<and>
   hd (filterGraph (legacyMergeVideos w h audioOption ''fade'' watermark)) =
     \<lparr>ins = [SrcV 0], chain = [Scale w h, Pad w h None, Setsar 1, Fade Out 0 (1 / 2)],
      outs = [V 0]\<rparr>"
  by (simp add: legacyMergeVideos_def legacyVideo_def Let_def drawtext_def has_watermark_None)

end
